theory Spec2Isabelle
  imports Complex_Main "HOL-Library.Word" "HOL-Library.Sublist"
begin

section \<open>The search route of the Perplexity clone\<close>

text \<open>
  The route module (the file with \<^verbatim>\<open>export async function POST\<close>) is embedded
  function by function.  A JavaScript string is a sequence of UTF-16 code units, and
  \<^verbatim>\<open>length\<close>, \<^verbatim>\<open>trim\<close>, \<^verbatim>\<open>replace\<close> and \<^verbatim>\<open>includes\<close> all work on
  code units, so a string is a list of 16-bit words.  String literals of the source are
  written \<open>js ''...''\<close>.
\<close>

subsection \<open>Strings\<close>

type_synonym jsstring = "16 word list"

abbreviation js :: "string \<Rightarrow> jsstring" where
  "js s \<equiv> map of_char s"

text \<open>\<^verbatim>\<open>s.includes(t)\<close>: \<open>t\<close> occurs in \<open>s\<close> as a contiguous run of code units.\<close>

fun str_includes :: "jsstring \<Rightarrow> jsstring \<Rightarrow> bool" where
  "str_includes [] t = (t = [])"
| "str_includes (c # cs) t = (prefix t (c # cs) \<or> str_includes cs t)"

text \<open>
  \<^verbatim>\<open>s.trim()\<close> removes leading and trailing WhiteSpace and LineTerminator code units
  (ECMA-262, TrimString): TAB, LF, VT, FF, CR, SP, NBSP, U+1680, U+2000..U+200A, U+2028,
  U+2029, U+202F, U+205F, U+3000 and U+FEFF.
\<close>

definition isWhiteSpace :: "16 word \<Rightarrow> bool" where
  "isWhiteSpace c =
     (c = 0x0009 \<or> c = 0x000A \<or> c = 0x000B \<or> c = 0x000C \<or> c = 0x000D \<or> c = 0x0020 \<or>
      c = 0x00A0 \<or> c = 0x1680 \<or> (0x2000 \<le> c \<and> c \<le> 0x200A) \<or> c = 0x2028 \<or>
      c = 0x2029 \<or> c = 0x202F \<or> c = 0x205F \<or> c = 0x3000 \<or> c = 0xFEFF)"

definition trim :: "jsstring \<Rightarrow> jsstring" where
  "trim s = rev (dropWhile isWhiteSpace (rev (dropWhile isWhiteSpace s)))"

text \<open>
  \<^verbatim>\<open>s.replace(/[<>\"'&]/g, '')\<close>: every code unit of the class
  \<^verbatim>\<open>< > " ' &\<close> is deleted.
\<close>

definition isDenied :: "16 word \<Rightarrow> bool" where
  "isDenied c = (c = 0x3C \<or> c = 0x3E \<or> c = 0x22 \<or> c = 0x27 \<or> c = 0x26)"

definition sanitize :: "jsstring \<Rightarrow> jsstring" where
  "sanitize s = filter (\<lambda>c. \<not> isDenied c) s"

text \<open>
  \<^verbatim>\<open>xs.join(sep)\<close> on strings, and the decimal digits of an index as a template
  literal prints them.
\<close>

fun join :: "jsstring \<Rightarrow> jsstring list \<Rightarrow> jsstring" where
  "join sep [] = []"
| "join sep [x] = x"
| "join sep (x # y # ys) = x @ sep @ join sep (y # ys)"

fun decimal :: "nat \<Rightarrow> jsstring" where
  "decimal n = (if n < 10 then [0x30 + of_nat n]
                else decimal (n div 10) @ [0x30 + of_nat (n mod 10)])"

declare decimal.simps [simp del]

subsection \<open>Values\<close>

text \<open>
  The request body, the search provider's response and the items in it are typed
  \<^verbatim>\<open>any\<close>: they are whatever \<^verbatim>\<open>JSON.parse\<close> produced.  \<open>jsval\<close> has the values
  of JSON and \<^verbatim>\<open>undefined\<close> (the value of a missing property and of a missing
  argument).  A number is a double: a finite one is the rational it denotes, both zeros
  being \<open>Finite 0\<close>.  An object is the list of its own properties.
\<close>

datatype jsnumber = Finite rat | PosInfinity | NegInfinity | NaN

datatype jsval =
    JUndefined
  | JNull
  | JBool bool
  | JNum jsnumber
  | JStr jsstring
  | JArr "jsval list"
  | JObj "(jsstring \<times> jsval) list"

datatype jstype = T_undefined | T_object | T_boolean | T_number | T_string

fun typeof :: "jsval \<Rightarrow> jstype" where
  "typeof JUndefined = T_undefined"
| "typeof JNull = T_object"
| "typeof (JBool b) = T_boolean"
| "typeof (JNum n) = T_number"
| "typeof (JStr s) = T_string"
| "typeof (JArr xs) = T_object"
| "typeof (JObj kvs) = T_object"

text \<open>ToBoolean, as \<^verbatim>\<open>!v\<close>, \<^verbatim>\<open>a || b\<close> and \<^verbatim>\<open>a && b\<close> apply it.\<close>

fun truthy :: "jsval \<Rightarrow> bool" where
  "truthy JUndefined = False"
| "truthy JNull = False"
| "truthy (JBool b) = b"
| "truthy (JNum (Finite r)) = (r \<noteq> 0)"
| "truthy (JNum PosInfinity) = True"
| "truthy (JNum NegInfinity) = True"
| "truthy (JNum NaN) = False"
| "truthy (JStr s) = (s \<noteq> [])"
| "truthy (JArr xs) = True"
| "truthy (JObj kvs) = True"

definition or_else :: "jsval \<Rightarrow> jsval \<Rightarrow> jsval" where
  "or_else a b = (if truthy a then a else b)"

text \<open>
  \<^verbatim>\<open>v.k\<close> for the property names this module reads (\<^verbatim>\<open>query\<close>, \<^verbatim>\<open>location\<close>,
  \<^verbatim>\<open>error\<close>, \<^verbatim>\<open>organic_results\<close>, \<^verbatim>\<open>title\<close>, \<^verbatim>\<open>link\<close>, \<^verbatim>\<open>snippet\<close>,
  \<^verbatim>\<open>favicon\<close>): an object gives its own property or \<^verbatim>\<open>undefined\<close>; a boolean, a
  number and an array inherit none of these names.  Reading a property of \<^verbatim>\<open>null\<close> or
  \<^verbatim>\<open>undefined\<close> throws, and a string inherits \<^verbatim>\<open>link\<close> from
  \<^verbatim>\<open>String.prototype\<close>: the callers below treat those cases before they call
  \<open>getProp\<close>.
\<close>

fun getProp :: "jsval \<Rightarrow> jsstring \<Rightarrow> jsval" where
  "getProp (JObj kvs) k = (case map_of kvs k of None \<Rightarrow> JUndefined | Some v \<Rightarrow> v)"
| "getProp v k = JUndefined"

fun isArray :: "jsval \<Rightarrow> bool" where
  "isArray (JArr xs) = True"
| "isArray v = False"

text \<open>
  What a \<^verbatim>\<open>throw\<close> carries: an \<^verbatim>\<open>Error\<close> (or a subclass) with its message, or
  any other value.  The handler's \<^verbatim>\<open>catch\<close> tells them apart with
  \<^verbatim>\<open>instanceof Error\<close>.
\<close>

datatype thrown = ErrorObj jsstring | OtherValue

subsection \<open>Types of the API\<close>

text \<open>
  \<^verbatim>\<open>SearchSource\<close> declares its fields as strings, but \<^verbatim>\<open>performSerpApiSearch\<close>
  fills them from an \<^verbatim>\<open>any\<close> (\<^verbatim>\<open>item.title || 'No title'\<close>), so a field holds
  whatever truthy value the provider sent.
\<close>

record SearchSource =
  id' :: jsstring
  title :: jsval
  url :: jsval
  description :: jsval
  favicon :: jsval

record SearchRequest =
  query :: jsstring
  location :: "jsstring option"

text \<open>The JSON payload of a response: \<^verbatim>\<open>{ error }\<close> or \<^verbatim>\<open>{ answer, sources }\<close>.\<close>

datatype payload = ErrorPayload jsstring | SearchResponse jsstring "SearchSource list"

text \<open>
  A \<^verbatim>\<open>NextResponse\<close>.  \<^verbatim>\<open>Headers\<close> stores names in lower case and
  \<^verbatim>\<open>set\<close>/\<^verbatim>\<open>get\<close> compare them so; \<^verbatim>\<open>NextResponse.json\<close> sets the content
  type and the status (200 when none is given).
\<close>

record NextResponse =
  status :: nat
  body :: payload
  headers :: "(jsstring \<times> jsstring) list"

definition lower :: "jsstring \<Rightarrow> jsstring" where
  "lower s = map (\<lambda>c. if 0x41 \<le> c \<and> c \<le> 0x5A then c + 0x20 else c) s"

fun assoc_set :: "jsstring \<Rightarrow> jsstring \<Rightarrow> (jsstring \<times> jsstring) list \<Rightarrow> (jsstring \<times> jsstring) list" where
  "assoc_set k v [] = [(k, v)]"
| "assoc_set k v ((k', v') # hs) =
     (if k' = k then (k, v) # hs else (k', v') # assoc_set k v hs)"

definition headers_set :: "jsstring \<Rightarrow> jsstring \<Rightarrow> NextResponse \<Rightarrow> NextResponse" where
  "headers_set name v response = response\<lparr>headers := assoc_set (lower name) v (headers response)\<rparr>"


definition NextResponse_json :: "payload \<Rightarrow> nat \<Rightarrow> NextResponse" where
  "NextResponse_json p st =
     \<lparr>status = st, body = p, headers = [(js ''content-type'', js ''application/json'')]\<rparr>"

subsection \<open>The runtime\<close>

text \<open>
  What the module reads from outside itself, for one request: the two environment
  variables (captured in \<^verbatim>\<open>requiredEnvVars\<close>), the clock, the two request headers,
  the result of \<^verbatim>\<open>await request.json()\<close>, and the built-ins and remote services it
  calls.  A call that can throw returns \<open>Inl\<close> of what it throws.
  \<^item> \<open>fetch\<close> maps the URL to the response, of which the module reads \<^verbatim>\<open>ok\<close> and
    \<^verbatim>\<open>json()\<close> (\<^verbatim>\<open>status\<close> and \<^verbatim>\<open>statusText\<close> only go into a message that the
    enclosing \<^verbatim>\<open>catch\<close> replaces);
  \<^item> \<open>urlHostname v\<close> is \<^verbatim>\<open>new URL(v).hostname\<close>, \<open>None\<close> when the constructor
    throws;
  \<^item> \<open>ToString\<close> is the conversion a template literal applies to a value that is not
    a string;
  \<^item> \<open>chat_completion\<close> maps the user prompt to
    \<^verbatim>\<open>completion.choices[0]?.message?.content\<close> of the completion the language-model
    client returns (\<open>None\<close> for \<^verbatim>\<open>undefined\<close> or \<^verbatim>\<open>null\<close>), or to what the call
    or the read throws.
\<close>

record FetchResponse =
  ok :: bool
  json :: "thrown + jsval"

record Runtime =
  SERPAPI_API_KEY :: "jsstring option"
  OPENAI_API_KEY :: "jsstring option"
  date_now :: int
  x_forwarded_for :: "jsstring option"
  x_real_ip :: "jsstring option"
  request_json :: "thrown + jsval"
  encodeURIComponent :: "jsstring \<Rightarrow> thrown + jsstring"
  fetch :: "jsstring \<Rightarrow> thrown + FetchResponse"
  urlHostname :: "jsval \<Rightarrow> jsstring option"
  ToString :: "jsval \<Rightarrow> thrown + jsstring"
  chat_completion :: "jsstring \<Rightarrow> thrown + jsstring option"

subsection \<open>Environment variables validation\<close>

definition requiredEnvVars :: "Runtime \<Rightarrow> (jsstring \<times> jsstring option) list" where
  "requiredEnvVars rt =
     [(js ''SERPAPI_API_KEY'', SERPAPI_API_KEY rt), (js ''OPENAI_API_KEY'', OPENAI_API_KEY rt)]"

definition validateEnvironment :: "Runtime \<Rightarrow> thrown + unit" where
  "validateEnvironment rt =
     (let missing = map fst (filter (\<lambda>(key, v). v = None \<or> v = Some []) (requiredEnvVars rt))
      in if length missing > 0
         then Inl (ErrorObj (js ''Missing required environment variables: '' @ join (js '', '') missing))
         else Inr ())"

subsection \<open>Rate limiting\<close>

text \<open>
  \<^verbatim>\<open>rateLimitStore\<close> is a module-level \<^verbatim>\<open>Map\<close> from client identifier to
  \<^verbatim>\<open>{ count, resetTime }\<close>.  \<^verbatim>\<open>checkRateLimit\<close> reads the clock and mutates the
  map; here the clock value and the map are arguments and the new map is returned.
  \<^verbatim>\<open>clientData.count++\<close> updates the object held by the map, so the entry in the
  map changes.
\<close>

record RateLimitEntry =
  count :: nat
  resetTime :: int

type_synonym rateLimitStore = "jsstring \<rightharpoonup> RateLimitEntry"

definition RATE_LIMIT_WINDOW :: int where
  "RATE_LIMIT_WINDOW = 60 * 1000"

definition RATE_LIMIT_MAX_REQUESTS :: nat where
  "RATE_LIMIT_MAX_REQUESTS = 10"

definition checkRateLimit :: "int \<Rightarrow> jsstring \<Rightarrow> rateLimitStore \<Rightarrow> bool \<times> rateLimitStore" where
  "checkRateLimit now clientId store =
     (case store clientId of
        None \<Rightarrow>
          (True, store(clientId \<mapsto> \<lparr>count = 1, resetTime = now + RATE_LIMIT_WINDOW\<rparr>))
      | Some clientData \<Rightarrow>
          if now > resetTime clientData then
            (True, store(clientId \<mapsto> \<lparr>count = 1, resetTime = now + RATE_LIMIT_WINDOW\<rparr>))
          else if count clientData \<ge> RATE_LIMIT_MAX_REQUESTS then
            (False, store)
          else
            (True, store(clientId \<mapsto> clientData\<lparr>count := count clientData + 1\<rparr>)))"

subsection \<open>SerpAPI search\<close>

text \<open>
  \<^verbatim>\<open>new URL(item.link || '').hostname\<close>: the constructor throws on the empty
  string whatever the runtime, since the empty string is no absolute URL.
\<close>

definition newURL_hostname :: "Runtime \<Rightarrow> jsval \<Rightarrow> jsstring option" where
  "newURL_hostname rt v = (if v = JStr [] then None else urlHostname rt v)"

text \<open>
  The callback of \<^verbatim>\<open>data.organic_results.map\<close>.  The fields of the object literal
  are evaluated in order; the favicon fallback is the one that can throw.  An item that is
  \<^verbatim>\<open>null\<close> throws at \<^verbatim>\<open>item.title\<close>.  An item that is a string has no
  \<^verbatim>\<open>favicon\<close> and its \<^verbatim>\<open>link\<close> is the function \<^verbatim>\<open>String.prototype.link\<close>,
  whose text is no URL, so the fallback throws.
\<close>

definition mapItem :: "Runtime \<Rightarrow> jsval \<Rightarrow> nat \<Rightarrow> thrown + SearchSource" where
  "mapItem rt item index =
     (case item of
        JUndefined \<Rightarrow> Inl (ErrorObj (js ''Cannot read properties of undefined''))
      | JNull \<Rightarrow> Inl (ErrorObj (js ''Cannot read properties of null''))
      | JStr s \<Rightarrow> Inl (ErrorObj (js ''Invalid URL''))
      | _ \<Rightarrow>
          (case (if truthy (getProp item (js ''favicon''))
                 then Some (getProp item (js ''favicon''))
                 else map_option
                        (\<lambda>hostname. JStr (js ''https://www.google.com/s2/favicons?domain=''
                                            @ hostname @ js ''&sz=32''))
                        (newURL_hostname rt (or_else (getProp item (js ''link'')) (JStr []))))
           of None \<Rightarrow> Inl (ErrorObj (js ''Invalid URL''))
            | Some fav \<Rightarrow>
                Inr \<lparr>id' = js ''serp-'' @ decimal (index + 1),
                     title = or_else (getProp item (js ''title'')) (JStr (js ''No title'')),
                     url = or_else (getProp item (js ''link'')) (JStr []),
                     description = or_else (getProp item (js ''snippet''))
                                     (JStr (js ''No description available'')),
                     favicon = fav\<rparr>))"

text \<open>\<^verbatim>\<open>Array.prototype.map\<close> with the index; the first throw ends it.\<close>

fun mapItems :: "Runtime \<Rightarrow> nat \<Rightarrow> jsval list \<Rightarrow> thrown + SearchSource list" where
  "mapItems rt index [] = Inr []"
| "mapItems rt index (item # items) =
     (case mapItem rt item index of
        Inl e \<Rightarrow> Inl e
      | Inr s \<Rightarrow> (case mapItems rt (index + 1) items of
                   Inl e \<Rightarrow> Inl e
                 | Inr ss \<Rightarrow> Inr (s # ss)))"

fun elements :: "jsval \<Rightarrow> jsval list" where
  "elements (JArr xs) = xs"
| "elements v = []"

text \<open>
  The URL is built before the \<^verbatim>\<open>try\<close>, so what \<^verbatim>\<open>encodeURIComponent\<close> throws
  leaves the function as it is.  Everything thrown inside the \<^verbatim>\<open>try\<close> is replaced
  by \<^verbatim>\<open>Error('Failed to perform web search')\<close>.
\<close>

definition search_failed :: thrown where
  "search_failed = ErrorObj (js ''Failed to perform web search'')"

definition searchUrl :: "Runtime \<Rightarrow> jsstring \<Rightarrow> jsstring" where
  "searchUrl rt encoded =
     (let apiKey = (case SERPAPI_API_KEY rt of None \<Rightarrow> js ''undefined'' | Some k \<Rightarrow> k)
      in js ''https://serpapi.com/search.json?engine=google&q='' @ encoded
         @ js ''&api_key='' @ apiKey @ js ''&num=8'')"

definition performSerpApiSearch :: "Runtime \<Rightarrow> jsstring \<Rightarrow> thrown + SearchSource list" where
  "performSerpApiSearch rt q =
     (case encodeURIComponent rt q of
        Inl e \<Rightarrow> Inl e
      | Inr encoded \<Rightarrow>
          (case fetch rt (searchUrl rt encoded) of
             Inl e \<Rightarrow> Inl search_failed
           | Inr response \<Rightarrow>
               if \<not> ok response then Inl search_failed
               else (case json response of
                  Inl e \<Rightarrow> Inl search_failed
                | Inr data \<Rightarrow>
                    if data = JNull \<or> data = JUndefined then Inl search_failed
                    else if truthy (getProp data (js ''error'')) then Inl search_failed
                    else if \<not> truthy (getProp data (js ''organic_results''))
                            \<or> \<not> isArray (getProp data (js ''organic_results''))
                    then Inr []
                    else (case mapItems rt 0 (elements (getProp data (js ''organic_results''))) of
                       Inl e \<Rightarrow> Inl search_failed
                     | Inr sources \<Rightarrow> Inr (filter (\<lambda>item. truthy (url item)) sources)))))"

subsection \<open>Answer generation\<close>

text \<open>A template literal's \<^verbatim>\<open>${v}\<close>: a string as it is, anything else converted.\<close>

definition template :: "Runtime \<Rightarrow> jsval \<Rightarrow> thrown + jsstring" where
  "template rt v = (case v of JStr s \<Rightarrow> Inr s | _ \<Rightarrow> ToString rt v)"

text \<open>
  \<^verbatim>\<open>sources.map((source, index) => `[${index + 1}] ${source.title}: ${source.description}`)\<close>,
  then \<^verbatim>\<open>.join('\n\n')\<close>.
\<close>

definition sourceLine :: "Runtime \<Rightarrow> SearchSource \<Rightarrow> nat \<Rightarrow> thrown + jsstring" where
  "sourceLine rt source index =
     (case template rt (title source) of
        Inl e \<Rightarrow> Inl e
      | Inr t \<Rightarrow> (case template rt (description source) of
                   Inl e \<Rightarrow> Inl e
                 | Inr d \<Rightarrow> Inr (js ''['' @ decimal (index + 1) @ js ''] '' @ t @ js '': '' @ d)))"

fun sourceLines :: "Runtime \<Rightarrow> nat \<Rightarrow> SearchSource list \<Rightarrow> thrown + jsstring list" where
  "sourceLines rt index [] = Inr []"
| "sourceLines rt index (source # sources) =
     (case sourceLine rt source index of
        Inl e \<Rightarrow> Inl e
      | Inr l \<Rightarrow> (case sourceLines rt (index + 1) sources of
                   Inl e \<Rightarrow> Inl e
                 | Inr ls \<Rightarrow> Inr (l # ls)))"

definition sourceContext :: "Runtime \<Rightarrow> SearchSource list \<Rightarrow> thrown + jsstring" where
  "sourceContext rt sources =
     (case sourceLines rt 0 sources of
        Inl e \<Rightarrow> Inl e
      | Inr ls \<Rightarrow> Inr (join [0x0A, 0x0A] ls))"

definition prompt :: "jsstring \<Rightarrow> jsstring \<Rightarrow> jsstring" where
  "prompt q context =
     js ''Based on the following search results, provide a comprehensive and accurate answer to the question: ''
     @ [0x22] @ q @ [0x22, 0x0A, 0x0A]
     @ js ''Search Results:'' @ [0x0A]
     @ context @ [0x0A, 0x0A]
     @ js ''Please provide a well-structured, informative answer that synthesizes information from the search results. Be factual and cite relevant information naturally. If the search results don''
     @ [0x27]
     @ js ''t contain enough information to answer the question completely, acknowledge this limitation.''
     @ [0x0A, 0x0A]
     @ js ''Answer:''"

text \<open>
  The context and the prompt are built before the \<^verbatim>\<open>try\<close>; what the completion
  call throws is replaced by \<^verbatim>\<open>Error('Failed to generate answer')\<close>.
\<close>

definition generateAnswer :: "Runtime \<Rightarrow> jsstring \<Rightarrow> SearchSource list \<Rightarrow> thrown + jsstring" where
  "generateAnswer rt q sources =
     (case sourceContext rt sources of
        Inl e \<Rightarrow> Inl e
      | Inr context \<Rightarrow>
          (case chat_completion rt (prompt q context) of
             Inl e \<Rightarrow> Inl (ErrorObj (js ''Failed to generate answer''))
           | Inr content \<Rightarrow>
               Inr (case content of
                      None \<Rightarrow> js ''Unable to generate answer at this time.''
                    | Some c \<Rightarrow> if c \<noteq> [] then c
                               else js ''Unable to generate answer at this time.'')))"

subsection \<open>Input validation and sanitization\<close>

fun str_of :: "jsval \<Rightarrow> jsstring" where
  "str_of (JStr s) = s"
| "str_of v = []"

definition validateSearchRequest :: "jsval \<Rightarrow> thrown + SearchRequest" where
  "validateSearchRequest b =
     (if \<not> truthy b \<or> typeof b \<noteq> T_object then
        Inl (ErrorObj (js ''Invalid request body''))
      else
        let q = getProp b (js ''query''); loc = getProp b (js ''location'') in
        if \<not> truthy q \<or> typeof q \<noteq> T_string then
          Inl (ErrorObj (js ''Query is required and must be a string''))
        else
          let trimmedQuery = trim (str_of q) in
          if length trimmedQuery = 0 then
            Inl (ErrorObj (js ''Query cannot be empty''))
          else if length trimmedQuery > 500 then
            Inl (ErrorObj (js ''Query is too long (max 500 characters)''))
          else
            let sanitizedQuery = sanitize trimmedQuery in
            if length sanitizedQuery = 0 then
              Inl (ErrorObj (js ''Query contains only invalid characters''))
            else
              Inr \<lparr>query = sanitizedQuery,
                   location =
                     (if truthy loc \<and> typeof loc = T_string then
                        (let trimmedLocation = trim (str_of loc) in
                         if length trimmedLocation > 0 \<and> length trimmedLocation \<le> 100
                         then Some (sanitize trimmedLocation)
                         else None)
                      else None)\<rparr>)"

subsection \<open>Security headers\<close>

definition addSecurityHeaders :: "NextResponse \<Rightarrow> NextResponse" where
  "addSecurityHeaders response =
     headers_set (js ''Referrer-Policy'') (js ''strict-origin-when-cross-origin'')
       (headers_set (js ''X-XSS-Protection'') (js ''1; mode=block'')
          (headers_set (js ''X-Frame-Options'') (js ''DENY'')
             (headers_set (js ''X-Content-Type-Options'') (js ''nosniff'') response)))"

subsection \<open>Main API handler\<close>

text \<open>
  The \<^verbatim>\<open>catch\<close> block of \<^verbatim>\<open>POST\<close>: the response for what the \<^verbatim>\<open>try\<close> block
  threw.
\<close>

definition handleError :: "thrown \<Rightarrow> NextResponse" where
  "handleError error =
     (case error of
        ErrorObj message \<Rightarrow>
          if str_includes message (js ''Missing required environment variables'') then
            addSecurityHeaders (NextResponse_json (ErrorPayload (js ''Service configuration error'')) 500)
          else if str_includes message (js ''Query'') \<or> str_includes message (js ''Invalid request'') then
            addSecurityHeaders (NextResponse_json (ErrorPayload message) 400)
          else
            addSecurityHeaders (NextResponse_json (ErrorPayload (js ''Internal server error'')) 500)
      | OtherValue \<Rightarrow>
          addSecurityHeaders (NextResponse_json (ErrorPayload (js ''Internal server error'')) 500))"

text \<open>
  The calls \<^verbatim>\<open>POST\<close> makes, in the order it makes them, are recorded beside the
  response and the store: one event per statement of the \<^verbatim>\<open>try\<close> block that calls
  a component.
\<close>

datatype event =
    CallValidateEnvironment
  | CallCheckRateLimit jsstring
  | CallRequestJson
  | CallValidateSearchRequest jsval
  | CallPerformSerpApiSearch jsstring
  | CallGenerateAnswer jsstring "SearchSource list"

definition clientIp :: "Runtime \<Rightarrow> jsstring" where
  "clientIp rt =
     (case x_forwarded_for rt of
        Some a \<Rightarrow> if a \<noteq> [] then a
                  else (case x_real_ip rt of
                          Some r \<Rightarrow> if r \<noteq> [] then r else js ''unknown''
                        | None \<Rightarrow> js ''unknown'')
      | None \<Rightarrow> (case x_real_ip rt of
                   Some r \<Rightarrow> if r \<noteq> [] then r else js ''unknown''
                 | None \<Rightarrow> js ''unknown''))"

text \<open>The \<^verbatim>\<open>try\<close> block: what it returns or throws, the store it leaves, its calls.\<close>

definition POST_try ::
  "Runtime \<Rightarrow> rateLimitStore \<Rightarrow> (thrown + NextResponse) \<times> rateLimitStore \<times> event list" where
  "POST_try rt store =
     (case validateEnvironment rt of
        Inl e \<Rightarrow> (Inl e, store, [CallValidateEnvironment])
      | Inr u \<Rightarrow>
         (case checkRateLimit (date_now rt) (clientIp rt) store of
            (allowed, store') \<Rightarrow>
              let t2 = [CallValidateEnvironment, CallCheckRateLimit (clientIp rt)] in
              if \<not> allowed then
                (Inr (addSecurityHeaders
                        (NextResponse_json
                           (ErrorPayload (js ''Rate limit exceeded. Please try again later.'')) 429)),
                 store', t2)
              else
                (case request_json rt of
                   Inl e \<Rightarrow> (Inl e, store', t2 @ [CallRequestJson])
                 | Inr b \<Rightarrow>
                    let t4 = t2 @ [CallRequestJson, CallValidateSearchRequest b] in
                    (case validateSearchRequest b of
                       Inl e \<Rightarrow> (Inl e, store', t4)
                     | Inr r \<Rightarrow>
                        let t5 = t4 @ [CallPerformSerpApiSearch (query r)] in
                        (case performSerpApiSearch rt (query r) of
                           Inl e \<Rightarrow> (Inl e, store', t5)
                         | Inr sources \<Rightarrow>
                            let t6 = t5 @ [CallGenerateAnswer (query r) sources] in
                            (case generateAnswer rt (query r) sources of
                               Inl e \<Rightarrow> (Inl e, store', t6)
                             | Inr answer \<Rightarrow>
                                 (Inr (addSecurityHeaders
                                         (NextResponse_json (SearchResponse answer sources) 200)),
                                  store', t6)))))))"

definition POST :: "Runtime \<Rightarrow> rateLimitStore \<Rightarrow> NextResponse \<times> rateLimitStore \<times> event list" where
  "POST rt store =
     (case POST_try rt store of
        (Inl error, store', calls) \<Rightarrow> (handleError error, store', calls)
      | (Inr response, store', calls) \<Rightarrow> (response, store', calls))"


subsection \<open>The module and the framework\<close>


datatype http_method = M_GET | M_POST | M_PUT | M_PATCH | M_DELETE





subsection \<open>Vocabulary of the properties\<close>


text \<open>
  The spec's error kind \<^verbatim>\<open>InvalidRequest\<close>: an \<^verbatim>\<open>Error\<close> that the handler's
  \<^verbatim>\<open>catch\<close> answers with HTTP 400 and the error's own message.
\<close>

definition InvalidRequest :: "thrown \<Rightarrow> bool" where
  "InvalidRequest e =
     (case e of
        ErrorObj m \<Rightarrow> status (handleError e) = 400 \<and> body (handleError e) = ErrorPayload m
      | OtherValue \<Rightarrow> False)"

text \<open>An error response: its status and the message of its \<^verbatim>\<open>{ error }\<close> payload.\<close>

definition responds :: "NextResponse \<Rightarrow> nat \<Rightarrow> jsstring \<Rightarrow> bool" where
  "responds r st m = (status r = st \<and> body r = ErrorPayload m)"

text \<open>
  Whether \<^verbatim>\<open>checkRateLimit\<close> allows the request of a runtime on a store, and the store
  it leaves.
\<close>

abbreviation rate_allowed :: "Runtime \<Rightarrow> rateLimitStore \<Rightarrow> bool" where
  "rate_allowed rt store \<equiv> fst (checkRateLimit (date_now rt) (clientIp rt) store)"

abbreviation store_after :: "Runtime \<Rightarrow> rateLimitStore \<Rightarrow> rateLimitStore" where
  "store_after rt store \<equiv> snd (checkRateLimit (date_now rt) (clientIp rt) store)"

text \<open>The calls of a request that runs to the end, in the order of the \<^verbatim>\<open>try\<close> block.\<close>

definition full_trace :: "Runtime \<Rightarrow> jsval \<Rightarrow> jsstring \<Rightarrow> SearchSource list \<Rightarrow> event list" where
  "full_trace rt b q srcs =
     [CallValidateEnvironment, CallCheckRateLimit (clientIp rt), CallRequestJson,
      CallValidateSearchRequest b, CallPerformSerpApiSearch q, CallGenerateAnswer q srcs]"

text \<open>
  A sequence of calls of \<^verbatim>\<open>checkRateLimit\<close>, each by a client at a clock value, run
  one after the other on the store, with the decision of each call; and the decisions a
  given client received, in order.
\<close>

type_synonym call = "jsstring \<times> int"

fun runCalls :: "call list \<Rightarrow> rateLimitStore \<Rightarrow> (call \<times> bool) list \<times> rateLimitStore" where
  "runCalls [] store = ([], store)"
| "runCalls ((c, t) # calls) store =
     (case checkRateLimit t c store of
        (allowed, store') \<Rightarrow>
          (case runCalls calls store' of
             (rs, store'') \<Rightarrow> (((c, t), allowed) # rs, store'')))"

definition decisions_for :: "jsstring \<Rightarrow> (call \<times> bool) list \<Rightarrow> bool list" where
  "decisions_for c rs = map snd (filter (\<lambda>r. fst (fst r) = c) rs)"

text \<open>
  A runtime for the examples: both keys set, a client behind a proxy, a body
  \<^verbatim>\<open>{"query": "  speed of light?  "}\<close>, a provider that answers with one result and a
  language model that answers \<^verbatim>\<open>c\<close>.
\<close>

definition rt_example :: Runtime where
  "rt_example =
     \<lparr>SERPAPI_API_KEY = Some (js ''key1''),
      OPENAI_API_KEY = Some (js ''key2''),
      date_now = 1000,
      x_forwarded_for = Some (js ''1.2.3.4''),
      x_real_ip = None,
      request_json = Inr (JObj [(js ''query'', JStr (js ''  speed of light?  ''))]),
      encodeURIComponent = (\<lambda>s. Inr s),
      fetch = (\<lambda>u. Inr \<lparr>ok = True,
                          json = Inr (JObj [(js ''organic_results'',
                                     JArr [JObj [(js ''title'', JStr (js ''Light'')),
                                                 (js ''link'', JStr (js ''https://a.example/l'')),
                                                 (js ''snippet'', JStr (js ''299792458 m/s''))]])])\<rparr>),
      urlHostname = (\<lambda>v. Some (js ''a.example'')),
      ToString = (\<lambda>v. Inr (js ''[object Object]'')),
      chat_completion = (\<lambda>p. Inr (Some (js ''c'')))\<rparr>"

text \<open>
  Variations of it.  A body that is no JSON: \<^verbatim>\<open>request.json()\<close> throws the
  \<^verbatim>\<open>SyntaxError\<close> of \<^verbatim>\<open>JSON.parse\<close>, whose message (V8) quotes the text, here
  the five characters \<^verbatim>\<open>Query\<close>.  An empty object as body, a body cut short, a body
  whose reading rejects with a value that is no \<^verbatim>\<open>Error\<close>, a missing search key (the
  module loads and \<^verbatim>\<open>validateEnvironment\<close> throws), an unset language-model key (the
  module does not load), a provider that cannot be reached, a language model that refuses,
  and a store in which the client has used up its window.
\<close>

definition parse_error_message :: jsstring where
  "parse_error_message =
     js ''Unexpected token '' @ [0x27] @ js ''Q'' @ [0x27] @ js '', '' @ [0x22] @ js ''Query''
     @ [0x22] @ js '' is not valid JSON''"

definition rt_unparsable_body :: Runtime where
  "rt_unparsable_body = rt_example\<lparr>request_json := Inl (ErrorObj parse_error_message)\<rparr>"

definition rt_empty_object_body :: Runtime where
  "rt_empty_object_body = rt_example\<lparr>request_json := Inr (JObj [])\<rparr>"

definition rt_missing_key :: Runtime where
  "rt_missing_key = rt_example\<lparr>SERPAPI_API_KEY := None\<rparr>"


definition rt_non_error_rejection :: Runtime where
  "rt_non_error_rejection = rt_example\<lparr>request_json := Inl OtherValue\<rparr>"

definition rt_search_down :: Runtime where
  "rt_search_down = rt_example\<lparr>fetch := (\<lambda>u. Inl (ErrorObj (js ''fetch failed'')))\<rparr>"

definition rt_model_down :: Runtime where
  "rt_model_down = rt_example\<lparr>chat_completion := (\<lambda>p. Inl (ErrorObj (js ''429 quota exceeded'')))\<rparr>"

definition rt_truncated_body :: Runtime where
  "rt_truncated_body = rt_example\<lparr>request_json := Inl (ErrorObj (js ''Unexpected end of JSON input''))\<rparr>"

definition store_exhausted :: rateLimitStore where
  "store_exhausted = [js ''1.2.3.4'' \<mapsto> \<lparr>count = 10, resetTime = 60000\<rparr>]"

text \<open>
  Provider responses: one with no \<^verbatim>\<open>organic_results\<close>, one that reports an error (the
  provider's answer to a search without results), one whose second result has neither
  \<^verbatim>\<open>link\<close> nor \<^verbatim>\<open>favicon\<close>, and one whose first result has a \<^verbatim>\<open>favicon\<close>
  but no \<^verbatim>\<open>link\<close>.
\<close>

definition rt_no_results :: Runtime where
  "rt_no_results =
     rt_example\<lparr>fetch := (\<lambda>u. Inr \<lparr>ok = True,
        json = Inr (JObj [(js ''search_metadata'', JObj [(js ''status'', JStr (js ''Success''))])])\<rparr>)\<rparr>"

definition rt_provider_error :: Runtime where
  "rt_provider_error =
     rt_example\<lparr>fetch := (\<lambda>u. Inr \<lparr>ok = True,
        json = Inr (JObj [(js ''error'',
                 JStr (js ''Google hasn'' @ [0x27]
                       @ js ''t returned any results for this query.''))])\<rparr>)\<rparr>"

definition rt_missing_link :: Runtime where
  "rt_missing_link =
     rt_example\<lparr>fetch := (\<lambda>u. Inr \<lparr>ok = True,
        json = Inr (JObj [(js ''organic_results'',
                 JArr [JObj [(js ''title'', JStr (js ''Light'')),
                             (js ''link'', JStr (js ''https://a.example/l'')),
                             (js ''snippet'', JStr (js ''299792458 m/s''))],
                       JObj [(js ''title'', JStr (js ''Untitled'')),
                             (js ''snippet'', JStr (js ''a result without a link''))]])])\<rparr>)\<rparr>"

definition rt_missing_link_with_favicon :: Runtime where
  "rt_missing_link_with_favicon =
     rt_example\<lparr>fetch := (\<lambda>u. Inr \<lparr>ok = True,
        json = Inr (JObj [(js ''organic_results'',
                 JArr [JObj [(js ''title'', JStr (js ''Untitled'')),
                             (js ''snippet'', JStr (js ''a result without a link'')),
                             (js ''favicon'', JStr (js ''https://b.example/f.ico''))],
                       JObj [(js ''title'', JStr (js ''Light'')),
                             (js ''link'', JStr (js ''https://a.example/l'')),
                             (js ''snippet'', JStr (js ''299792458 m/s''))]])])\<rparr>)\<rparr>"

section \<open>Properties\<close>

subsection \<open>Helper facts\<close>





lemma fst_runCalls_Cons:
  "fst (runCalls ((c, t) # calls) store) =
     ((c, t), fst (checkRateLimit t c store)) # fst (runCalls calls (snd (checkRateLimit t c store)))"
  by (simp split: prod.split)

lemma snd_runCalls_Cons:
  "snd (runCalls ((c, t) # calls) store) = snd (runCalls calls (snd (checkRateLimit t c store)))"
  by (simp split: prod.split)

lemma checkRateLimit_other: "c' \<noteq> c \<Longrightarrow> snd (checkRateLimit t c' store) c = store c"
  by (simp add: checkRateLimit_def split: option.split)

lemma checkRateLimit_live:
  "store c = Some e \<Longrightarrow> t \<le> resetTime e \<Longrightarrow>
   checkRateLimit t c store =
     (if count e \<ge> RATE_LIMIT_MAX_REQUESTS then (False, store)
      else (True, store(c \<mapsto> e\<lparr>count := count e + 1\<rparr>)))"
  by (simp add: checkRateLimit_def)

lemma runCalls_live:
  "store c = Some e \<Longrightarrow> count e \<le> RATE_LIMIT_MAX_REQUESTS \<Longrightarrow>
   (\<forall>call \<in> set calls. fst call = c \<longrightarrow> snd call \<le> resetTime e) \<Longrightarrow>
   decisions_for c (fst (runCalls calls store)) =
     (let n = length (filter (\<lambda>call. fst call = c) calls);
          k = RATE_LIMIT_MAX_REQUESTS - count e
      in replicate (min n k) True @ replicate (n - k) False)"
proof (induction calls arbitrary: store e)
  case Nil
  then show ?case by (simp add: decisions_for_def)
next
  case (Cons call calls)
  obtain c' t where call: "call = (c', t)" by (cases call)
  show ?case
  proof (cases "c' = c")
    case False
    obtain a s1 where step: "checkRateLimit t c' store = (a, s1)" by (cases "checkRateLimit t c' store")
    have s1: "s1 c = Some e" using checkRateLimit_other [OF False, of t store] step Cons.prems(1) by simp
    have "decisions_for c (fst (runCalls calls s1)) =
     (let n = length (filter (\<lambda>call. fst call = c) calls);
          k = RATE_LIMIT_MAX_REQUESTS - count e
      in replicate (min n k) True @ replicate (n - k) False)"
      using Cons.IH [of s1 e] s1 Cons.prems(2) Cons.prems(3) by simp
    then show ?thesis using False call step
      by (simp add: fst_runCalls_Cons decisions_for_def del: runCalls.simps)
  next
    case True
    have t: "t \<le> resetTime e" using Cons.prems(3) call True by simp
    show ?thesis
    proof (cases "count e \<ge> RATE_LIMIT_MAX_REQUESTS")
      case full: True
      have step: "checkRateLimit t c store = (False, store)"
        using checkRateLimit_live [of store c e t] Cons.prems(1) t full by simp
      have "decisions_for c (fst (runCalls calls store)) =
       (let n = length (filter (\<lambda>call. fst call = c) calls);
            k = RATE_LIMIT_MAX_REQUESTS - count e
        in replicate (min n k) True @ replicate (n - k) False)"
        using Cons.IH [of store e] Cons.prems by simp
      then show ?thesis using True call step full
        by (simp add: fst_runCalls_Cons decisions_for_def Let_def del: runCalls.simps)
    next
      case room: False
      let ?e = "e\<lparr>count := count e + 1\<rparr>"
      let ?s = "store(c \<mapsto> ?e)"
      have step: "checkRateLimit t c store = (True, ?s)"
        using checkRateLimit_live [of store c e t] Cons.prems(1) t room by simp
      have "decisions_for c (fst (runCalls calls ?s)) =
       (let n = length (filter (\<lambda>call. fst call = c) calls);
            k = RATE_LIMIT_MAX_REQUESTS - count ?e
        in replicate (min n k) True @ replicate (n - k) False)"
      proof -
        have s: "?s c = Some ?e" by simp
        have cnt: "count ?e \<le> RATE_LIMIT_MAX_REQUESTS" using room by simp
        have tm: "\<forall>call \<in> set calls. fst call = c \<longrightarrow> snd call \<le> resetTime ?e"
          using Cons.prems(3) by simp
        show ?thesis by (rule Cons.IH [of ?s ?e, OF s cnt tm])
      qed
      moreover have "RATE_LIMIT_MAX_REQUESTS - count e = Suc (RATE_LIMIT_MAX_REQUESTS - count ?e)"
        using room by simp
      ultimately show ?thesis using True call step
        by (simp add: fst_runCalls_Cons decisions_for_def Let_def del: runCalls.simps)
    qed
  qed
qed

lemma checkRateLimit_fresh:
  "(case store c of None \<Rightarrow> True | Some e \<Rightarrow> t > resetTime e) \<Longrightarrow>
   checkRateLimit t c store = (True, store(c \<mapsto> \<lparr>count = 1, resetTime = t + RATE_LIMIT_WINDOW\<rparr>))"
  by (auto simp: checkRateLimit_def split: option.splits)

lemma runCalls_live_entry:
  "store c = Some e \<Longrightarrow>
   (\<forall>call \<in> set calls. fst call = c \<longrightarrow> snd call \<le> resetTime e) \<Longrightarrow>
   \<exists>e'. snd (runCalls calls store) c = Some e' \<and> resetTime e' = resetTime e"
proof (induction calls arbitrary: store e)
  case Nil
  then show ?case by simp
next
  case (Cons call calls)
  obtain c' t where call: "call = (c', t)" by (cases call)
  let ?s = "snd (checkRateLimit t c' store)"
  have "\<exists>e1. ?s c = Some e1 \<and> resetTime e1 = resetTime e"
  proof (cases "c' = c")
    case False
    then show ?thesis using checkRateLimit_other [of c' c t store] Cons.prems(1) by simp
  next
    case True
    have t: "t \<le> resetTime e" using Cons.prems(2) call True by simp
    show ?thesis using checkRateLimit_live [of store c e t] Cons.prems(1) t True by simp
  qed
  then obtain e1 where e1: "?s c = Some e1" "resetTime e1 = resetTime e" by blast
  have tm: "\<forall>call \<in> set calls. fst call = c \<longrightarrow> snd call \<le> resetTime e1"
    using Cons.prems(2) e1(2) by simp
  have "\<exists>e'. snd (runCalls calls ?s) c = Some e' \<and> resetTime e' = resetTime e1"
    by (rule Cons.IH [of ?s e1, OF e1(1) tm])
  then show ?case using call e1(2) by (simp add: snd_runCalls_Cons del: runCalls.simps)
qed

lemma status_addSecurityHeaders [simp]: "status (addSecurityHeaders r) = status r"
  by (simp add: addSecurityHeaders_def headers_set_def)

lemma body_addSecurityHeaders [simp]: "body (addSecurityHeaders r) = body r"
  by (simp add: addSecurityHeaders_def headers_set_def)

lemma InvalidRequest_messages:
  "InvalidRequest (ErrorObj (js ''Invalid request body''))"
  "InvalidRequest (ErrorObj (js ''Query is required and must be a string''))"
  "InvalidRequest (ErrorObj (js ''Query cannot be empty''))"
  "InvalidRequest (ErrorObj (js ''Query is too long (max 500 characters)''))"
  "InvalidRequest (ErrorObj (js ''Query contains only invalid characters''))"
  by (simp_all add: InvalidRequest_def handleError_def NextResponse_json_def)

lemma trim_Nil [simp]: "trim [] = []"
  by (simp add: trim_def)

lemma validate_Inl: "validateSearchRequest b = Inl e \<Longrightarrow> InvalidRequest e"
  unfolding validateSearchRequest_def Let_def
  by (auto simp: InvalidRequest_messages [simplified] split: if_splits)

lemma falsy_object: "typeof b = T_object \<Longrightarrow> truthy b = (b \<noteq> JNull)"
  by (cases b) simp_all

lemma truthy_string: "typeof q = T_string \<Longrightarrow> truthy q = (str_of q \<noteq> [])"
  by (cases q) simp_all

lemma validate_Inr:
  "validateSearchRequest b = Inr r \<Longrightarrow>
     b \<noteq> JUndefined \<and> b \<noteq> JNull \<and> typeof b = T_object \<and>
     getProp b (js ''query'') \<noteq> JUndefined \<and>
     typeof (getProp b (js ''query'')) = T_string \<and>
     trim (str_of (getProp b (js ''query''))) \<noteq> [] \<and>
     length (trim (str_of (getProp b (js ''query'')))) \<le> 500 \<and>
     sanitize (trim (str_of (getProp b (js ''query'')))) \<noteq> [] \<and>
     query r = sanitize (trim (str_of (getProp b (js ''query''))))"
  unfolding validateSearchRequest_def Let_def
  by (auto split: if_splits)

lemma POST_try_env:
  "validateEnvironment rt = Inl e \<Longrightarrow>
   POST_try rt store = (Inl e, store, [CallValidateEnvironment])"
  by (simp add: POST_try_def)

lemma POST_try_denied:
  "validateEnvironment rt = Inr u \<Longrightarrow> \<not> rate_allowed rt store \<Longrightarrow>
   POST_try rt store =
     (Inr (addSecurityHeaders (NextResponse_json
             (ErrorPayload (js ''Rate limit exceeded. Please try again later.'')) 429)),
      store_after rt store,
      [CallValidateEnvironment, CallCheckRateLimit (clientIp rt)])"
  by (cases "checkRateLimit (date_now rt) (clientIp rt) store") (simp add: POST_try_def Let_def)

lemma POST_try_json:
  "validateEnvironment rt = Inr u \<Longrightarrow> rate_allowed rt store \<Longrightarrow> request_json rt = Inl e \<Longrightarrow>
   POST_try rt store =
     (Inl e, store_after rt store,
      [CallValidateEnvironment, CallCheckRateLimit (clientIp rt), CallRequestJson])"
  by (cases "checkRateLimit (date_now rt) (clientIp rt) store") (simp add: POST_try_def Let_def)

lemma POST_try_invalid:
  "validateEnvironment rt = Inr u \<Longrightarrow> rate_allowed rt store \<Longrightarrow> request_json rt = Inr b \<Longrightarrow>
   validateSearchRequest b = Inl e \<Longrightarrow>
   POST_try rt store =
     (Inl e, store_after rt store,
      [CallValidateEnvironment, CallCheckRateLimit (clientIp rt), CallRequestJson,
       CallValidateSearchRequest b])"
  by (cases "checkRateLimit (date_now rt) (clientIp rt) store") (simp add: POST_try_def Let_def)

lemma POST_try_search:
  "validateEnvironment rt = Inr u \<Longrightarrow> rate_allowed rt store \<Longrightarrow> request_json rt = Inr b \<Longrightarrow>
   validateSearchRequest b = Inr r \<Longrightarrow> performSerpApiSearch rt (query r) = Inl e \<Longrightarrow>
   POST_try rt store =
     (Inl e, store_after rt store,
      [CallValidateEnvironment, CallCheckRateLimit (clientIp rt), CallRequestJson,
       CallValidateSearchRequest b, CallPerformSerpApiSearch (query r)])"
  by (cases "checkRateLimit (date_now rt) (clientIp rt) store") (simp add: POST_try_def Let_def)

lemma POST_try_answer:
  "validateEnvironment rt = Inr u \<Longrightarrow> rate_allowed rt store \<Longrightarrow> request_json rt = Inr b \<Longrightarrow>
   validateSearchRequest b = Inr r \<Longrightarrow> performSerpApiSearch rt (query r) = Inr srcs \<Longrightarrow>
   generateAnswer rt (query r) srcs = Inl e \<Longrightarrow>
   POST_try rt store =
     (Inl e, store_after rt store,
      [CallValidateEnvironment, CallCheckRateLimit (clientIp rt), CallRequestJson,
       CallValidateSearchRequest b, CallPerformSerpApiSearch (query r),
       CallGenerateAnswer (query r) srcs])"
  by (cases "checkRateLimit (date_now rt) (clientIp rt) store") (simp add: POST_try_def Let_def)

lemma POST_try_success:
  "validateEnvironment rt = Inr u \<Longrightarrow> rate_allowed rt store \<Longrightarrow> request_json rt = Inr b \<Longrightarrow>
   validateSearchRequest b = Inr r \<Longrightarrow> performSerpApiSearch rt (query r) = Inr srcs \<Longrightarrow>
   generateAnswer rt (query r) srcs = Inr a \<Longrightarrow>
   POST_try rt store =
     (Inr (addSecurityHeaders (NextResponse_json (SearchResponse a srcs) 200)),
      store_after rt store,
      [CallValidateEnvironment, CallCheckRateLimit (clientIp rt), CallRequestJson,
       CallValidateSearchRequest b, CallPerformSerpApiSearch (query r),
       CallGenerateAnswer (query r) srcs])"
  by (cases "checkRateLimit (date_now rt) (clientIp rt) store") (simp add: POST_try_def Let_def)

lemma POST_of_try:
  "POST_try rt store = (Inl e, s, t) \<Longrightarrow> POST rt store = (handleError e, s, t)"
  "POST_try rt store = (Inr r, s, t) \<Longrightarrow> POST rt store = (r, s, t)"
  by (simp_all add: POST_def)

lemma str_includes_prefix: "prefix p s \<Longrightarrow> str_includes s p"
  by (cases s) simp_all

lemma validateEnvironment_Inl:
  "validateEnvironment rt = Inl e \<Longrightarrow>
   \<exists>m. e = ErrorObj (js ''Missing required environment variables: '' @ m)"
  by (auto simp: validateEnvironment_def Let_def split: if_splits)

lemma handleError_config:
  "responds (handleError (ErrorObj (js ''Missing required environment variables: '' @ m)))
     500 (js ''Service configuration error'')"
proof -
  have "prefix (js ''Missing required environment variables'')
          (js ''Missing required environment variables: '' @ m)"
    by simp
  then have "str_includes (js ''Missing required environment variables: '' @ m)
          (js ''Missing required environment variables'')"
    by (rule str_includes_prefix)
  then show ?thesis
    by (simp add: handleError_def responds_def NextResponse_json_def del: str_includes.simps)
qed

lemma handleError_internal:
  "e = OtherValue \<or>
   (\<exists>m. e = ErrorObj m \<and> \<not> str_includes m (js ''Missing required environment variables'')
        \<and> \<not> str_includes m (js ''Query'') \<and> \<not> str_includes m (js ''Invalid request'')) \<Longrightarrow>
   responds (handleError e) 500 (js ''Internal server error'')"
  by (auto simp: handleError_def responds_def NextResponse_json_def simp del: str_includes.simps)

lemma handleError_upstream:
  "responds (handleError search_failed) 500 (js ''Internal server error'')"
  "responds (handleError (ErrorObj (js ''Failed to generate answer''))) 500 (js ''Internal server error'')"
  by (simp_all add: handleError_def responds_def NextResponse_json_def search_failed_def)

lemma validate_Inl_responds:
  "validateSearchRequest b = Inl e \<Longrightarrow> \<exists>m. e = ErrorObj m \<and> responds (handleError e) 400 m"
  using validate_Inl [of b e] by (cases e) (simp_all add: InvalidRequest_def responds_def)

lemma search_Inl:
  "encodeURIComponent rt q = Inr enc \<Longrightarrow> performSerpApiSearch rt q = Inl e \<Longrightarrow> e = search_failed"
  by (simp add: performSerpApiSearch_def split: sum.splits if_splits)

lemma answer_Inl:
  "sourceContext rt srcs = Inr c \<Longrightarrow> generateAnswer rt q srcs = Inl e \<Longrightarrow>
   e = ErrorObj (js ''Failed to generate answer'')"
  by (simp add: generateAnswer_def split: sum.splits)

lemma checkRateLimit_allowed_counts:
  "fst (checkRateLimit t c store) \<Longrightarrow> snd (checkRateLimit t c store) c \<noteq> store c"
proof (cases "store c")
  case None
  then show ?thesis by (simp add: checkRateLimit_def)
next
  case (Some e)
  assume ok: "fst (checkRateLimit t c store)"
  show ?thesis
  proof (cases "t > resetTime e")
    case True
    have "\<lparr>count = 1, resetTime = t + RATE_LIMIT_WINDOW\<rparr> \<noteq> e"
    proof
      assume "\<lparr>count = 1, resetTime = t + RATE_LIMIT_WINDOW\<rparr> = e"
      then have "resetTime e = t + RATE_LIMIT_WINDOW" by auto
      then show False using True by (simp add: RATE_LIMIT_WINDOW_def)
    qed
    then show ?thesis using Some True by (simp add: checkRateLimit_def)
  next
    case False
    have "e\<lparr>count := count e + 1\<rparr> \<noteq> e"
    proof
      assume "e\<lparr>count := count e + 1\<rparr> = e"
      then have "count (e\<lparr>count := count e + 1\<rparr>) = count e" by simp
      then show False by simp
    qed
    then show ?thesis using Some False ok by (simp add: checkRateLimit_def split: if_splits)
  qed
qed

lemma POST_trace_prefix:
  "\<exists>b q srcs. prefix (snd (snd (POST rt store))) (full_trace rt b q srcs)"
proof (cases "validateEnvironment rt")
  case (Inl e)
  show ?thesis using POST_of_try(1) [OF POST_try_env [OF Inl, of store]]
    by (simp add: full_trace_def)
next
  case env: (Inr u)
  show ?thesis
  proof (cases "rate_allowed rt store")
    case False
    show ?thesis using POST_of_try(2) [OF POST_try_denied [OF env False]]
      by (simp add: full_trace_def)
  next
    case ok: True
    show ?thesis
    proof (cases "request_json rt")
      case (Inl e)
      show ?thesis using POST_of_try(1) [OF POST_try_json [OF env ok Inl]]
        by (simp add: full_trace_def)
    next
      case bd: (Inr b)
      show ?thesis
      proof (cases "validateSearchRequest b")
        case (Inl e)
        have "snd (snd (POST rt store)) =
              [CallValidateEnvironment, CallCheckRateLimit (clientIp rt), CallRequestJson,
               CallValidateSearchRequest b]"
          using POST_of_try(1) [OF POST_try_invalid [OF env ok bd Inl]] by simp
        then have "prefix (snd (snd (POST rt store))) (full_trace rt b [] [])"
          by (simp add: full_trace_def)
        then show ?thesis by blast
      next
        case rq: (Inr r)
        show ?thesis
        proof (cases "performSerpApiSearch rt (query r)")
          case (Inl e)
          have "snd (snd (POST rt store)) =
              [CallValidateEnvironment, CallCheckRateLimit (clientIp rt), CallRequestJson,
               CallValidateSearchRequest b, CallPerformSerpApiSearch (query r)]"
            using POST_of_try(1) [OF POST_try_search [OF env ok bd rq Inl]] by simp
          then have "prefix (snd (snd (POST rt store))) (full_trace rt b (query r) [])"
            by (simp add: full_trace_def)
          then show ?thesis by blast
        next
          case sr: (Inr srcs)
          have "snd (snd (POST rt store)) = full_trace rt b (query r) srcs"
          proof (cases "generateAnswer rt (query r) srcs")
            case (Inl e)
            show ?thesis using POST_of_try(1) [OF POST_try_answer [OF env ok bd rq sr Inl]]
              by (simp add: full_trace_def)
          next
            case (Inr a)
            show ?thesis using POST_of_try(2) [OF POST_try_success [OF env ok bd rq sr Inr]]
              by (simp add: full_trace_def)
          qed
          then have "prefix (snd (snd (POST rt store))) (full_trace rt b (query r) srcs)"
            by simp
          then show ?thesis by blast
        qed
      qed
    qed
  qed
qed




text \<open>The definitions a concrete request is evaluated with.\<close>

lemmas eval_defs = validateEnvironment_def requiredEnvVars_def rt_example_def
      checkRateLimit_def clientIp_def RATE_LIMIT_WINDOW_def RATE_LIMIT_MAX_REQUESTS_def
      validateSearchRequest_def
      trim_def sanitize_def isWhiteSpace_def isDenied_def Let_def
      performSerpApiSearch_def mapItem_def or_else_def newURL_hostname_def decimal.simps
      generateAnswer_def sourceContext_def sourceLine_def template_def

subsection \<open>Rate limiter\<close>

text \<open>
  Claim C2.  With the window of 60000 ms and the maximum of 10 of the source: let a client
  \<open>c\<close> call at \<open>t0\<close> with no entry or an entry whose \<^verbatim>\<open>resetTime\<close> has passed,
  and let every later call of \<open>c\<close> in the sequence come within that window (calls of other
  clients may come in between, at any time).  Then the first 10 calls of \<open>c\<close> are allowed
  and every further one is denied; the opening call sets the entry to
  \<^verbatim>\<open>{count: 1, resetTime: t0 + 60000}\<close>; and a call of \<open>c\<close> at a time strictly after
  that \<^verbatim>\<open>resetTime\<close> is allowed and sets the entry to
  \<^verbatim>\<open>{count: 1, resetTime: now + 60000}\<close>.
\<close>

theorem rate_limit_window:
  assumes fresh: "case store c of None \<Rightarrow> True | Some e \<Rightarrow> t0 > resetTime e"
    and window: "\<forall>call \<in> set calls. fst call = c \<longrightarrow> snd call \<le> t0 + 60000"
    and later: "t > t0 + 60000"
  shows "decisions_for c (fst (runCalls ((c, t0) # calls) store)) =
           (let n = Suc (length (filter (\<lambda>call. fst call = c) calls))
            in replicate (min n 10) True @ replicate (n - 10) False)
         \<and> checkRateLimit t0 c store = (True, store(c \<mapsto> \<lparr>count = 1, resetTime = t0 + 60000\<rparr>))
         \<and> checkRateLimit t c (snd (runCalls ((c, t0) # calls) store)) =
             (True, (snd (runCalls ((c, t0) # calls) store))(c \<mapsto> \<lparr>count = 1, resetTime = t + 60000\<rparr>))"
proof -
  let ?e = "\<lparr>count = 1, resetTime = t0 + 60000\<rparr>"
  let ?s = "store(c \<mapsto> ?e)"
  have first: "checkRateLimit t0 c store = (True, ?s)"
    using checkRateLimit_fresh [where store = store and c = c and t = t0] fresh by (simp add: RATE_LIMIT_WINDOW_def)
  have s: "?s c = Some ?e" by simp
  have cnt: "count ?e \<le> RATE_LIMIT_MAX_REQUESTS" by (simp add: RATE_LIMIT_MAX_REQUESTS_def)
  have tm: "\<forall>call \<in> set calls. fst call = c \<longrightarrow> snd call \<le> resetTime ?e"
    using window by simp
  have rest: "decisions_for c (fst (runCalls calls ?s)) =
     (let n = length (filter (\<lambda>call. fst call = c) calls);
          k = RATE_LIMIT_MAX_REQUESTS - count ?e
      in replicate (min n k) True @ replicate (n - k) False)"
    by (rule runCalls_live [of ?s c ?e, OF s cnt tm])
  have part1: "decisions_for c (fst (runCalls ((c, t0) # calls) store)) =
           (let n = Suc (length (filter (\<lambda>call. fst call = c) calls))
            in replicate (min n 10) True @ replicate (n - 10) False)"
    using rest first
    by (simp add: fst_runCalls_Cons decisions_for_def Let_def RATE_LIMIT_MAX_REQUESTS_def
        del: runCalls.simps)
  obtain e' where e': "snd (runCalls calls ?s) c = Some e'" "resetTime e' = resetTime ?e"
    using runCalls_live_entry [of ?s c ?e, OF s tm] by blast
  have final: "snd (runCalls ((c, t0) # calls) store) = snd (runCalls calls ?s)"
    using first by (simp add: snd_runCalls_Cons del: runCalls.simps)
  have fresh': "case snd (runCalls ((c, t0) # calls) store) c of None \<Rightarrow> True | Some e \<Rightarrow> t > resetTime e"
    using e' later final by simp
  have part3: "checkRateLimit t c (snd (runCalls ((c, t0) # calls) store)) =
             (True, (snd (runCalls ((c, t0) # calls) store))(c \<mapsto> \<lparr>count = 1, resetTime = t + 60000\<rparr>))"
    using checkRateLimit_fresh [where store = "snd (runCalls ((c, t0) # calls) store)" and c = c and t = t] fresh'
    by (simp add: RATE_LIMIT_WINDOW_def)
  show ?thesis using part1 first part3 by blast
qed

theorem rate_limit_window_witness:
  "decisions_for (js ''a'')
     (fst (runCalls [(js ''a'', 0), (js ''a'', 1), (js ''b'', 2), (js ''a'', 3), (js ''a'', 4),
                     (js ''a'', 5), (js ''a'', 6), (js ''a'', 7), (js ''a'', 8), (js ''a'', 9),
                     (js ''a'', 10), (js ''a'', 60000), (js ''a'', 20)] Map.empty))
   = [True, True, True, True, True, True, True, True, True, True, False, False]
   \<and> checkRateLimit 0 (js ''a'') Map.empty
       = (True, [js ''a'' \<mapsto> \<lparr>count = 1, resetTime = 60000\<rparr>])
   \<and> fst (checkRateLimit 60001 (js ''a'')
        (snd (runCalls [(js ''a'', 0), (js ''a'', 1), (js ''b'', 2), (js ''a'', 3), (js ''a'', 4),
                     (js ''a'', 5), (js ''a'', 6), (js ''a'', 7), (js ''a'', 8), (js ''a'', 9),
                     (js ''a'', 10), (js ''a'', 60000), (js ''a'', 20)] Map.empty)))"
  using rate_limit_window [where store = Map.empty and c = "js ''a''" and ?t0.0 = 0 and t = 60001
      and calls = "[(js ''a'', 1), (js ''b'', 2), (js ''a'', 3), (js ''a'', 4),
                     (js ''a'', 5), (js ''a'', 6), (js ''a'', 7), (js ''a'', 8), (js ''a'', 9),
                     (js ''a'', 10), (js ''a'', 60000), (js ''a'', 20)]"]
  by (simp add: Let_def del: runCalls.simps)

text \<open>
  Claim C7.  For a client whose entry is live (the current time is not past its
  \<^verbatim>\<open>resetTime\<close>) and whose count has reached the maximum, \<^verbatim>\<open>checkRateLimit\<close>
  denies the request and returns the store it was given: that client's entry and
  every other client's entry are unchanged.
\<close>

theorem checkRateLimit_deny_unchanged:
  assumes "store clientId = Some e"
    and "\<not> now > resetTime e"
    and "count e \<ge> RATE_LIMIT_MAX_REQUESTS"
  shows "checkRateLimit now clientId store = (False, store)"
  using assms by (simp add: checkRateLimit_def)

theorem checkRateLimit_deny_unchanged_witness:
  "checkRateLimit 5000 (js ''1.2.3.4'')
     [js ''1.2.3.4'' \<mapsto> \<lparr>count = 10, resetTime = 60000\<rparr>,
      js ''5.6.7.8'' \<mapsto> \<lparr>count = 3, resetTime = 7000\<rparr>]
   = (False, [js ''1.2.3.4'' \<mapsto> \<lparr>count = 10, resetTime = 60000\<rparr>,
              js ''5.6.7.8'' \<mapsto> \<lparr>count = 3, resetTime = 7000\<rparr>])"
  by (rule checkRateLimit_deny_unchanged [where e = "\<lparr>count = 10, resetTime = 60000\<rparr>"])
     (simp_all add: RATE_LIMIT_MAX_REQUESTS_def)

subsection \<open>Security headers\<close>




subsection \<open>Sanitization\<close>

text \<open>
  Claim C9.  The denylist sanitization is idempotent: deleting the characters
  \<^verbatim>\<open>< > " ' &\<close> from a string that has already lost them changes nothing.
\<close>

theorem sanitize_idempotent: "sanitize (sanitize s) = sanitize s"
  by (simp add: sanitize_def)

theorem sanitize_idempotent_witness:
  "sanitize (sanitize (js ''a<b>&c'')) = sanitize (js ''a<b>&c'')"
  by (rule sanitize_idempotent)

subsection \<open>Request validator\<close>

text \<open>
  Claim C3.  A body that is absent (\<^verbatim>\<open>undefined\<close> or \<^verbatim>\<open>null\<close>), is not an object,
  lacks a \<^verbatim>\<open>query\<close>, has a \<^verbatim>\<open>query\<close> that is not a string, or whose trimmed
  query is empty, longer than 500 or empty once the characters \<^verbatim>\<open>< > " ' &\<close> are
  stripped, makes \<^verbatim>\<open>validateSearchRequest\<close> throw an \<^verbatim>\<open>InvalidRequest\<close> error;
  every other body makes it return a request whose query is the trimmed, stripped input.
\<close>

theorem validateSearchRequest_spec:
  "let q = str_of (getProp b (js ''query'')) in
   if b = JUndefined \<or> b = JNull \<or> typeof b \<noteq> T_object
      \<or> getProp b (js ''query'') = JUndefined
      \<or> typeof (getProp b (js ''query'')) \<noteq> T_string
      \<or> trim q = [] \<or> length (trim q) > 500 \<or> sanitize (trim q) = []
   then \<exists>e. validateSearchRequest b = Inl e \<and> InvalidRequest e
   else \<exists>r. validateSearchRequest b = Inr r \<and> query r = sanitize (trim q)"
proof (cases "validateSearchRequest b")
  case (Inl e)
  have "InvalidRequest e" using Inl by (rule validate_Inl)
  moreover have "b = JUndefined \<or> b = JNull \<or> typeof b \<noteq> T_object
      \<or> getProp b (js ''query'') = JUndefined
      \<or> typeof (getProp b (js ''query'')) \<noteq> T_string
      \<or> trim (str_of (getProp b (js ''query''))) = []
      \<or> length (trim (str_of (getProp b (js ''query'')))) > 500
      \<or> sanitize (trim (str_of (getProp b (js ''query'')))) = []"
    using Inl unfolding validateSearchRequest_def Let_def
    by (auto simp: falsy_object truthy_string split: if_splits)
  ultimately show ?thesis using Inl by (simp add: Let_def)
next
  case (Inr r)
  show ?thesis using validate_Inr [OF Inr] Inr by (simp add: Let_def)
qed

theorem validateSearchRequest_spec_witness:
  "validateSearchRequest (JObj [(js ''query'', JStr (js ''  a<b>  ''))])
     = Inr \<lparr>query = js ''ab'', location = None\<rparr>
   \<and> (\<exists>e. validateSearchRequest (JObj []) = Inl e \<and> InvalidRequest e)
   \<and> (\<exists>e. validateSearchRequest (JObj [(js ''query'', JStr (js '' <> ''))]) = Inl e
          \<and> InvalidRequest e)"
  using validateSearchRequest_spec [of "JObj [(js ''query'', JStr (js ''  a<b>  ''))]"]
    validateSearchRequest_spec [of "JObj []"]
    validateSearchRequest_spec [of "JObj [(js ''query'', JStr (js '' <> ''))]"]
  by (simp add: Let_def trim_def sanitize_def isWhiteSpace_def isDenied_def
      validateSearchRequest_def)

text \<open>
  Claim C10.  For a body with a valid query and a string \<^verbatim>\<open>location\<close> whose trimmed
  length is between 1 and 100 and whose trimmed text has denylist characters only, the
  validator succeeds and the request has a \<^verbatim>\<open>location\<close>, the empty string: the
  length is checked before the characters are stripped.
\<close>

theorem location_sanitized_to_empty:
  assumes "typeof b = T_object" and "b \<noteq> JNull"
    and "getProp b (js ''query'') = JStr q"
    and "trim q \<noteq> []" and "length (trim q) \<le> 500" and "sanitize (trim q) \<noteq> []"
    and "getProp b (js ''location'') = JStr l"
    and "1 \<le> length (trim l)" and "length (trim l) \<le> 100"
    and "\<forall>c \<in> set (trim l). isDenied c"
  shows "validateSearchRequest b = Inr \<lparr>query = sanitize (trim q), location = Some []\<rparr>"
proof -
  have l: "l \<noteq> []" using assms(8) by auto
  have q: "q \<noteq> []" using assms(4) by auto
  have s: "sanitize (trim l) = []" using assms(10) by (simp add: sanitize_def)
  have tl: "trim l \<noteq> []" using assms(8) by auto
  show ?thesis
    using assms l q s tl unfolding validateSearchRequest_def Let_def
    by (simp add: falsy_object)
qed

theorem location_sanitized_to_empty_witness:
  "validateSearchRequest
     (JObj [(js ''query'', JStr (js ''hi'')), (js ''location'', JStr (js '' <&> ''))])
   = Inr \<lparr>query = js ''hi'', location = Some []\<rparr>"
  using location_sanitized_to_empty
    [where b = "JObj [(js ''query'', JStr (js ''hi'')), (js ''location'', JStr (js '' <&> ''))]"
       and q = "js ''hi''" and l = "js '' <&> ''"]
  by (simp add: trim_def sanitize_def isWhiteSpace_def isDenied_def)

subsection \<open>Error mapping\<close>

text \<open>
  Claim C1 (as amended).  Whatever the \<^verbatim>\<open>try\<close> block of \<^verbatim>\<open>POST\<close> throws is
  answered by the first matching rule, tested on the error's message in this order: a
  message containing \<^verbatim>\<open>Missing required environment variables\<close> gives HTTP 500 with
  \<^verbatim>\<open>Service configuration error\<close>; otherwise a message containing \<^verbatim>\<open>Query\<close> or
  \<^verbatim>\<open>Invalid request\<close> gives HTTP 400 with the message itself; anything else, and a
  thrown value that is no \<^verbatim>\<open>Error\<close>, gives HTTP 500 with
  \<^verbatim>\<open>Internal server error\<close>.  By these rules a missing environment variable is
  answered with the configuration error, an error thrown by \<^verbatim>\<open>validateSearchRequest\<close>
  with HTTP 400 and its message, and a failure of the search call or of the completion call
  with the internal error; a denial by the rate limiter, which throws nothing, is answered
  with HTTP 429 and \<^verbatim>\<open>Rate limit exceeded. Please try again later.\<close>
\<close>

theorem error_to_response_mapping:
  "(validateEnvironment rt = Inl e1 \<longrightarrow>
      fst (POST_try rt store) = Inl e1
      \<and> (\<exists>m. e1 = ErrorObj m \<and> str_includes m (js ''Missing required environment variables''))
      \<and> responds (fst (POST rt store)) 500 (js ''Service configuration error''))
   \<and> (validateEnvironment rt = Inr () \<and> \<not> rate_allowed rt store \<longrightarrow>
      responds (fst (POST rt store)) 429 (js ''Rate limit exceeded. Please try again later.''))
   \<and> (validateEnvironment rt = Inr () \<and> rate_allowed rt store \<and> request_json rt = Inr b
        \<and> validateSearchRequest b = Inl e2 \<longrightarrow>
      fst (POST_try rt store) = Inl e2
      \<and> (\<exists>m. e2 = ErrorObj m \<and> responds (fst (POST rt store)) 400 m))
   \<and> (validateEnvironment rt = Inr () \<and> rate_allowed rt store \<and> request_json rt = Inr b
        \<and> validateSearchRequest b = Inr r \<and> encodeURIComponent rt (query r) = Inr enc
        \<and> performSerpApiSearch rt (query r) = Inl e3 \<longrightarrow>
      responds (fst (POST rt store)) 500 (js ''Internal server error''))
   \<and> (validateEnvironment rt = Inr () \<and> rate_allowed rt store \<and> request_json rt = Inr b
        \<and> validateSearchRequest b = Inr r \<and> performSerpApiSearch rt (query r) = Inr srcs
        \<and> sourceContext rt srcs = Inr c \<and> generateAnswer rt (query r) srcs = Inl e4 \<longrightarrow>
      responds (fst (POST rt store)) 500 (js ''Internal server error''))
   \<and> (fst (POST_try rt store) = Inl (ErrorObj m) \<longrightarrow>
        (if str_includes m (js ''Missing required environment variables'')
         then responds (fst (POST rt store)) 500 (js ''Service configuration error'')
         else if str_includes m (js ''Query'') \<or> str_includes m (js ''Invalid request'')
         then responds (fst (POST rt store)) 400 m
         else responds (fst (POST rt store)) 500 (js ''Internal server error'')))
   \<and> (fst (POST_try rt store) = Inl OtherValue \<longrightarrow>
        responds (fst (POST rt store)) 500 (js ''Internal server error''))"
proof (intro conjI impI)
  assume a: "validateEnvironment rt = Inl e1"
  obtain m where m: "e1 = ErrorObj (js ''Missing required environment variables: '' @ m)"
    using validateEnvironment_Inl [OF a] by blast
  have "prefix (js ''Missing required environment variables'')
          (js ''Missing required environment variables: '' @ m)"
    by simp
  then have "str_includes (js ''Missing required environment variables: '' @ m)
          (js ''Missing required environment variables'')"
    by (rule str_includes_prefix)
  then show "\<exists>m. e1 = ErrorObj m \<and> str_includes m (js ''Missing required environment variables'')"
    using m by blast
  show "fst (POST_try rt store) = Inl e1"
    using POST_try_env [OF a, of store] by simp
  have "fst (POST rt store) = handleError e1"
    using POST_of_try(1) [OF POST_try_env [OF a, of store]] by simp
  then show "responds (fst (POST rt store)) 500 (js ''Service configuration error'')"
    using handleError_config [of m] m by simp
next
  assume a: "validateEnvironment rt = Inr () \<and> \<not> rate_allowed rt store"
  have "fst (POST rt store) = addSecurityHeaders (NextResponse_json
             (ErrorPayload (js ''Rate limit exceeded. Please try again later.'')) 429)"
    using POST_of_try(2) [OF POST_try_denied [of rt "()" store]] a by simp
  then show "responds (fst (POST rt store)) 429 (js ''Rate limit exceeded. Please try again later.'')"
    by (simp add: responds_def NextResponse_json_def)
next
  assume a: "validateEnvironment rt = Inr () \<and> rate_allowed rt store \<and> request_json rt = Inr b
        \<and> validateSearchRequest b = Inl e2"
  show "fst (POST_try rt store) = Inl e2"
    using POST_try_invalid [of rt "()" store b e2] a by simp
  have "fst (POST rt store) = handleError e2"
    using POST_of_try(1) [OF POST_try_invalid [of rt "()" store b e2]] a by simp
  then show "\<exists>m. e2 = ErrorObj m \<and> responds (fst (POST rt store)) 400 m"
    using validate_Inl_responds [of b e2] a by simp
next
  assume a: "validateEnvironment rt = Inr () \<and> rate_allowed rt store \<and> request_json rt = Inr b
        \<and> validateSearchRequest b = Inr r \<and> encodeURIComponent rt (query r) = Inr enc
        \<and> performSerpApiSearch rt (query r) = Inl e3"
  have "fst (POST rt store) = handleError e3"
    using POST_of_try(1) [OF POST_try_search [of rt "()" store b r e3]] a by simp
  moreover have "e3 = search_failed"
    using search_Inl [of rt "query r" enc e3] a by simp
  ultimately show "responds (fst (POST rt store)) 500 (js ''Internal server error'')"
    using handleError_upstream(1) by simp
next
  assume a: "validateEnvironment rt = Inr () \<and> rate_allowed rt store \<and> request_json rt = Inr b
        \<and> validateSearchRequest b = Inr r \<and> performSerpApiSearch rt (query r) = Inr srcs
        \<and> sourceContext rt srcs = Inr c \<and> generateAnswer rt (query r) srcs = Inl e4"
  have "fst (POST rt store) = handleError e4"
    using POST_of_try(1) [OF POST_try_answer [of rt "()" store b r srcs e4]] a by simp
  moreover have "e4 = ErrorObj (js ''Failed to generate answer'')"
    using answer_Inl [of rt srcs c "query r" e4] a by simp
  ultimately show "responds (fst (POST rt store)) 500 (js ''Internal server error'')"
    using handleError_upstream(2) by simp
next
  assume a: "fst (POST_try rt store) = Inl (ErrorObj m)"
  obtain s t where "POST_try rt store = (Inl (ErrorObj m), s, t)"
    using a by (cases "POST_try rt store") simp
  then have "fst (POST rt store) = handleError (ErrorObj m)"
    using POST_of_try(1) by simp
  then show "if str_includes m (js ''Missing required environment variables'')
         then responds (fst (POST rt store)) 500 (js ''Service configuration error'')
         else if str_includes m (js ''Query'') \<or> str_includes m (js ''Invalid request'')
         then responds (fst (POST rt store)) 400 m
         else responds (fst (POST rt store)) 500 (js ''Internal server error'')"
    by (simp add: handleError_def responds_def NextResponse_json_def del: str_includes.simps)
next
  assume a: "fst (POST_try rt store) = Inl OtherValue"
  obtain s t where "POST_try rt store = (Inl OtherValue, s, t)"
    using a by (cases "POST_try rt store") simp
  then have "fst (POST rt store) = handleError OtherValue"
    using POST_of_try(1) by simp
  then show "responds (fst (POST rt store)) 500 (js ''Internal server error'')"
    by (simp add: handleError_def responds_def NextResponse_json_def)
qed

theorem error_to_response_mapping_witness:
  "responds (fst (POST rt_missing_key Map.empty)) 500 (js ''Service configuration error'')
   \<and> responds (fst (POST rt_example store_exhausted)) 429
         (js ''Rate limit exceeded. Please try again later.'')
   \<and> responds (fst (POST rt_empty_object_body Map.empty)) 400
         (js ''Query is required and must be a string'')
   \<and> responds (fst (POST rt_search_down Map.empty)) 500 (js ''Internal server error'')
   \<and> responds (fst (POST rt_model_down Map.empty)) 500 (js ''Internal server error'')
   \<and> responds (fst (POST rt_unparsable_body Map.empty)) 400 parse_error_message
   \<and> responds (fst (POST rt_truncated_body Map.empty)) 500 (js ''Internal server error'')
   \<and> responds (fst (POST rt_non_error_rejection Map.empty)) 500 (js ''Internal server error'')"
proof -
  have 1: "responds (fst (POST rt_missing_key Map.empty)) 500 (js ''Service configuration error'')"
    using error_to_response_mapping [where rt = rt_missing_key and store = Map.empty
        and ?e1.0 = "ErrorObj (js ''Missing required environment variables: SERPAPI_API_KEY'')"]
    by (simp add: rt_missing_key_def eval_defs)
  have 2: "responds (fst (POST rt_example store_exhausted)) 429
         (js ''Rate limit exceeded. Please try again later.'')"
    using error_to_response_mapping [where rt = rt_example and store = store_exhausted]
    by (simp add: store_exhausted_def eval_defs)
  have 3: "responds (fst (POST rt_empty_object_body Map.empty)) 400
         (js ''Query is required and must be a string'')"
    using error_to_response_mapping [where rt = rt_empty_object_body and store = Map.empty
        and b = "JObj []" and ?e2.0 = "ErrorObj (js ''Query is required and must be a string'')"]
    by (simp add: rt_empty_object_body_def eval_defs)
  have 4: "responds (fst (POST rt_search_down Map.empty)) 500 (js ''Internal server error'')"
    using error_to_response_mapping [where rt = rt_search_down and store = Map.empty
        and b = "JObj [(js ''query'', JStr (js ''  speed of light?  ''))]"
        and r = "\<lparr>query = js ''speed of light?'', location = None\<rparr>"
        and enc = "js ''speed of light?''" and ?e3.0 = search_failed]
    by (simp add: rt_search_down_def eval_defs)
  have 5: "responds (fst (POST rt_model_down Map.empty)) 500 (js ''Internal server error'')"
    using error_to_response_mapping [where rt = rt_model_down and store = Map.empty
        and b = "JObj [(js ''query'', JStr (js ''  speed of light?  ''))]"
        and r = "\<lparr>query = js ''speed of light?'', location = None\<rparr>"
        and srcs = "[\<lparr>id' = js ''serp-1'', title = JStr (js ''Light''), url = JStr (js ''https://a.example/l''),
        description = JStr (js ''299792458 m/s''),
        favicon = JStr (js ''https://www.google.com/s2/favicons?domain=a.example&sz=32'')\<rparr>]"
        and c = "js ''[1] Light: 299792458 m/s''"
        and ?e4.0 = "ErrorObj (js ''Failed to generate answer'')"]
    by (simp add: rt_model_down_def eval_defs)
  have 6: "responds (fst (POST rt_unparsable_body Map.empty)) 400 parse_error_message"
    using error_to_response_mapping [where rt = rt_unparsable_body and store = Map.empty
        and m = parse_error_message]
    by (simp add: rt_unparsable_body_def POST_try_def parse_error_message_def eval_defs)
  have 7: "responds (fst (POST rt_truncated_body Map.empty)) 500 (js ''Internal server error'')"
    using error_to_response_mapping [where rt = rt_truncated_body and store = Map.empty
        and m = "js ''Unexpected end of JSON input''"]
    by (simp add: rt_truncated_body_def POST_try_def eval_defs)
  have 8: "responds (fst (POST rt_non_error_rejection Map.empty)) 500 (js ''Internal server error'')"
    using error_to_response_mapping [where rt = rt_non_error_rejection and store = Map.empty]
    by (simp add: rt_non_error_rejection_def POST_try_def eval_defs)
  show ?thesis using 1 2 3 4 5 6 7 8 by simp
qed

text \<open>
  The claim as it was stated, that any error other than the three named ones is answered
  with HTTP 500 and an opaque message, fails: the handler classifies by substring, so the
  parse error of a body that reads \<^verbatim>\<open>Query\<close>, thrown before the validator is called,
  is answered with HTTP 400 and its own message.
\<close>

theorem parse_error_answered_400_counterexample:
  "fst (POST_try rt_unparsable_body Map.empty) = Inl (ErrorObj parse_error_message)
   \<and> snd (snd (POST rt_unparsable_body Map.empty))
       = [CallValidateEnvironment, CallCheckRateLimit (js ''1.2.3.4''), CallRequestJson]
   \<and> status (fst (POST rt_unparsable_body Map.empty)) = 400
   \<and> body (fst (POST rt_unparsable_body Map.empty)) = ErrorPayload parse_error_message
   \<and> \<not> responds (fst (POST rt_unparsable_body Map.empty)) 500 (js ''Internal server error'')"
  by (simp add: POST_def POST_try_def rt_unparsable_body_def validateEnvironment_def
      requiredEnvVars_def rt_example_def checkRateLimit_def clientIp_def RATE_LIMIT_WINDOW_def
      handleError_def parse_error_message_def responds_def NextResponse_json_def)

subsection \<open>Order of the components\<close>

text \<open>
  Claim C5 (as amended).  For every request the components run in the order: check the
  configuration, check the rate limit, parse and validate the body, fetch the sources,
  synthesize the answer, assemble the response; the calls of a request are always an
  initial part of that sequence.  A request the rate limiter denies is answered 429 before
  its body is parsed or validated.  A request whose body fails validation is answered 400
  after the rate limiter has been consulted, and the store is the one the rate limiter left:
  the request has been counted, the client's entry is no longer what it was.
\<close>

theorem request_order:
  "(\<exists>b q srcs. prefix (snd (snd (POST rt store))) (full_trace rt b q srcs))
   \<and> (validateEnvironment rt = Inr () \<and> \<not> rate_allowed rt store \<longrightarrow>
        snd (snd (POST rt store)) = [CallValidateEnvironment, CallCheckRateLimit (clientIp rt)]
        \<and> status (fst (POST rt store)) = 429)
   \<and> (validateEnvironment rt = Inr () \<and> rate_allowed rt store \<and> request_json rt = Inr b
        \<and> validateSearchRequest b = Inl e \<longrightarrow>
        snd (snd (POST rt store)) =
          [CallValidateEnvironment, CallCheckRateLimit (clientIp rt), CallRequestJson,
           CallValidateSearchRequest b]
        \<and> fst (snd (POST rt store)) = store_after rt store
        \<and> status (fst (POST rt store)) = 400
        \<and> fst (snd (POST rt store)) (clientIp rt) \<noteq> store (clientIp rt))
   \<and> (validateEnvironment rt = Inr () \<and> rate_allowed rt store \<and> request_json rt = Inr b
        \<and> validateSearchRequest b = Inr r \<and> performSerpApiSearch rt (query r) = Inr srcs
        \<and> generateAnswer rt (query r) srcs = Inr a \<longrightarrow>
        POST rt store =
          (addSecurityHeaders (NextResponse_json (SearchResponse a srcs) 200),
           store_after rt store, full_trace rt b (query r) srcs))"
proof (intro conjI impI)
  show "\<exists>b q srcs. prefix (snd (snd (POST rt store))) (full_trace rt b q srcs)"
    by (rule POST_trace_prefix)
next
  assume a: "validateEnvironment rt = Inr () \<and> \<not> rate_allowed rt store"
  have p: "POST rt store = (addSecurityHeaders (NextResponse_json
             (ErrorPayload (js ''Rate limit exceeded. Please try again later.'')) 429),
      store_after rt store,
      [CallValidateEnvironment, CallCheckRateLimit (clientIp rt)])"
    using POST_of_try(2) [OF POST_try_denied [of rt "()" store]] a by simp
  show "snd (snd (POST rt store)) = [CallValidateEnvironment, CallCheckRateLimit (clientIp rt)]"
    using p by simp
  show "status (fst (POST rt store)) = 429"
    using p by (simp add: NextResponse_json_def)
next
  assume a: "validateEnvironment rt = Inr () \<and> rate_allowed rt store \<and> request_json rt = Inr b
        \<and> validateSearchRequest b = Inl e"
  have p: "POST rt store = (handleError e, store_after rt store,
      [CallValidateEnvironment, CallCheckRateLimit (clientIp rt), CallRequestJson,
       CallValidateSearchRequest b])"
    using POST_of_try(1) [OF POST_try_invalid [of rt "()" store b e]] a by simp
  show "snd (snd (POST rt store)) =
          [CallValidateEnvironment, CallCheckRateLimit (clientIp rt), CallRequestJson,
           CallValidateSearchRequest b]"
    using p by simp
  show "fst (snd (POST rt store)) = store_after rt store"
    using p by simp
  show "status (fst (POST rt store)) = 400"
    using p validate_Inl_responds [of b e] a by (auto simp: responds_def)
  show "fst (snd (POST rt store)) (clientIp rt) \<noteq> store (clientIp rt)"
    using p a checkRateLimit_allowed_counts [of "date_now rt" "clientIp rt" store] by simp
next
  assume a: "validateEnvironment rt = Inr () \<and> rate_allowed rt store \<and> request_json rt = Inr b
        \<and> validateSearchRequest b = Inr r \<and> performSerpApiSearch rt (query r) = Inr srcs
        \<and> generateAnswer rt (query r) srcs = Inr a"
  show "POST rt store =
          (addSecurityHeaders (NextResponse_json (SearchResponse a srcs) 200),
           store_after rt store, full_trace rt b (query r) srcs)"
    using POST_of_try(2) [OF POST_try_success [of rt "()" store b r srcs a]] a
    by (simp add: full_trace_def)
qed

theorem request_order_witness:
  "prefix (snd (snd (POST rt_example Map.empty)))
     (full_trace rt_example (JObj [(js ''query'', JStr (js ''  speed of light?  ''))])
        (js ''speed of light?'')
        [\<lparr>id' = js ''serp-1'', title = JStr (js ''Light''), url = JStr (js ''https://a.example/l''),
        description = JStr (js ''299792458 m/s''),
        favicon = JStr (js ''https://www.google.com/s2/favicons?domain=a.example&sz=32'')\<rparr>])
   \<and> snd (snd (POST rt_example store_exhausted))
       = [CallValidateEnvironment, CallCheckRateLimit (js ''1.2.3.4'')]
   \<and> status (fst (POST rt_example store_exhausted)) = 429
   \<and> snd (snd (POST rt_empty_object_body Map.empty)) =
          [CallValidateEnvironment, CallCheckRateLimit (js ''1.2.3.4''), CallRequestJson,
           CallValidateSearchRequest (JObj [])]
   \<and> fst (snd (POST rt_empty_object_body Map.empty))
       = [js ''1.2.3.4'' \<mapsto> \<lparr>count = 1, resetTime = 61000\<rparr>]
   \<and> status (fst (POST rt_empty_object_body Map.empty)) = 400"
proof -
  have 1: "POST rt_example Map.empty =
          (addSecurityHeaders (NextResponse_json (SearchResponse (js ''c'')
        [\<lparr>id' = js ''serp-1'', title = JStr (js ''Light''), url = JStr (js ''https://a.example/l''),
        description = JStr (js ''299792458 m/s''),
        favicon = JStr (js ''https://www.google.com/s2/favicons?domain=a.example&sz=32'')\<rparr>]) 200),
           store_after rt_example Map.empty,
           full_trace rt_example (JObj [(js ''query'', JStr (js ''  speed of light?  ''))])
        (js ''speed of light?'')
        [\<lparr>id' = js ''serp-1'', title = JStr (js ''Light''), url = JStr (js ''https://a.example/l''),
        description = JStr (js ''299792458 m/s''),
        favicon = JStr (js ''https://www.google.com/s2/favicons?domain=a.example&sz=32'')\<rparr>])"
    using request_order [where rt = rt_example and store = Map.empty
        and b = "JObj [(js ''query'', JStr (js ''  speed of light?  ''))]"
        and r = "\<lparr>query = js ''speed of light?'', location = None\<rparr>"
        and srcs = "[\<lparr>id' = js ''serp-1'', title = JStr (js ''Light''), url = JStr (js ''https://a.example/l''),
        description = JStr (js ''299792458 m/s''),
        favicon = JStr (js ''https://www.google.com/s2/favicons?domain=a.example&sz=32'')\<rparr>]"
        and a = "js ''c''"]
    by (simp add: eval_defs)
  have 2: "snd (snd (POST rt_example store_exhausted))
       = [CallValidateEnvironment, CallCheckRateLimit (js ''1.2.3.4'')]
   \<and> status (fst (POST rt_example store_exhausted)) = 429"
    using request_order [where rt = rt_example and store = store_exhausted]
    by (simp add: store_exhausted_def eval_defs)
  have 3: "snd (snd (POST rt_empty_object_body Map.empty)) =
          [CallValidateEnvironment, CallCheckRateLimit (js ''1.2.3.4''), CallRequestJson,
           CallValidateSearchRequest (JObj [])]
   \<and> fst (snd (POST rt_empty_object_body Map.empty))
       = [js ''1.2.3.4'' \<mapsto> \<lparr>count = 1, resetTime = 61000\<rparr>]
   \<and> status (fst (POST rt_empty_object_body Map.empty)) = 400"
    using request_order [where rt = rt_empty_object_body and store = Map.empty
        and b = "JObj []" and e = "ErrorObj (js ''Query is required and must be a string'')"]
    by (simp add: rt_empty_object_body_def eval_defs)
  show ?thesis using 1 2 3 by simp
qed

text \<open>
  The claim as it was stated, that a body failing validation is rejected before the rate
  limiter is consulted or its state changed, fails: for the body \<^verbatim>\<open>{}\<close> on an empty
  store the call of \<^verbatim>\<open>checkRateLimit\<close> precedes the call of the validator, and the
  store afterwards holds an entry for the client.
\<close>

theorem validation_after_rate_limit_counterexample:
  "validateSearchRequest (JObj []) = Inl (ErrorObj (js ''Query is required and must be a string''))
   \<and> request_json rt_empty_object_body = Inr (JObj [])
   \<and> status (fst (POST rt_empty_object_body Map.empty)) = 400
   \<and> snd (snd (POST rt_empty_object_body Map.empty)) =
       [CallValidateEnvironment, CallCheckRateLimit (js ''1.2.3.4''), CallRequestJson,
        CallValidateSearchRequest (JObj [])]
   \<and> fst (snd (POST rt_empty_object_body Map.empty)) (js ''1.2.3.4'')
       = Some \<lparr>count = 1, resetTime = 61000\<rparr>
   \<and> fst (snd (POST rt_empty_object_body Map.empty)) \<noteq> Map.empty"
proof -
  have p: "POST rt_empty_object_body Map.empty =
   (addSecurityHeaders (NextResponse_json (ErrorPayload (js ''Query is required and must be a string'')) 400),
    [js ''1.2.3.4'' \<mapsto> \<lparr>count = 1, resetTime = 61000\<rparr>],
    [CallValidateEnvironment, CallCheckRateLimit (js ''1.2.3.4''), CallRequestJson,
     CallValidateSearchRequest (JObj [])])"
    by (simp add: POST_def POST_try_def rt_empty_object_body_def handleError_def eval_defs)
  have v: "validateSearchRequest (JObj []) = Inl (ErrorObj (js ''Query is required and must be a string''))"
    by (simp add: validateSearchRequest_def)
  have j: "request_json rt_empty_object_body = Inr (JObj [])"
    by (simp add: rt_empty_object_body_def rt_example_def)
  have n: "[js ''1.2.3.4'' \<mapsto> \<lparr>count = 1, resetTime = 61000\<rparr>] \<noteq> Map.empty"
    by simp
  show ?thesis using v j n by (simp add: p NextResponse_json_def)
qed

subsection \<open>Search-source fetcher\<close>

text \<open>
  Claim C6 (as amended).  When the provider's response has a success status, its body
  parses to a value other than \<^verbatim>\<open>null\<close> that reports no error, and the body has no
  results array (the field is missing or is no array), \<^verbatim>\<open>performSerpApiSearch\<close>
  returns the empty sequence rather than failing, and \<^verbatim>\<open>POST\<close> still calls
  \<^verbatim>\<open>generateAnswer\<close> with that empty list: the context block is empty, the completion
  is requested for the prompt with the empty context, and a successful response carries no
  sources.
\<close>

theorem no_results_array_gives_empty_sources:
  assumes "validateEnvironment rt = Inr ()" and "rate_allowed rt store"
    and "request_json rt = Inr b" and "validateSearchRequest b = Inr r"
    and "encodeURIComponent rt (query r) = Inr enc"
    and "fetch rt (searchUrl rt enc) = Inr resp" and "ok resp" and "json resp = Inr data"
    and "data \<noteq> JNull" and "data \<noteq> JUndefined"
    and "\<not> truthy (getProp data (js ''error''))"
    and "\<not> isArray (getProp data (js ''organic_results''))"
  shows "performSerpApiSearch rt (query r) = Inr []
       \<and> sourceContext rt [] = Inr []
       \<and> snd (snd (POST rt store)) = full_trace rt b (query r) []
       \<and> (case chat_completion rt (prompt (query r) []) of
             Inl e \<Rightarrow> responds (fst (POST rt store)) 500 (js ''Internal server error'')
           | Inr content \<Rightarrow>
               status (fst (POST rt store)) = 200
               \<and> (\<exists>a. body (fst (POST rt store)) = SearchResponse a []))"
proof -
  have search: "performSerpApiSearch rt (query r) = Inr []"
    using assms(5-12) by (simp add: performSerpApiSearch_def)
  have ctx: "sourceContext rt [] = Inr []"
    by (simp add: sourceContext_def)
  show ?thesis
  proof (cases "chat_completion rt (prompt (query r) [])")
    case (Inl e)
    have g: "generateAnswer rt (query r) [] = Inl (ErrorObj (js ''Failed to generate answer''))"
      using Inl ctx by (simp add: generateAnswer_def)
    have p: "POST rt store = (handleError (ErrorObj (js ''Failed to generate answer'')),
        store_after rt store, full_trace rt b (query r) [])"
      using POST_of_try(1) [OF POST_try_answer [OF assms(1-4) search g]]
      by (simp add: full_trace_def)
    show ?thesis using search ctx p Inl handleError_upstream(2) by simp
  next
    case (Inr content)
    obtain a where g: "generateAnswer rt (query r) [] = Inr a"
      using Inr ctx by (simp add: generateAnswer_def)
    have p: "POST rt store =
        (addSecurityHeaders (NextResponse_json (SearchResponse a []) 200),
         store_after rt store, full_trace rt b (query r) [])"
      using POST_of_try(2) [OF POST_try_success [OF assms(1-4) search g]]
      by (simp add: full_trace_def)
    show ?thesis using search ctx p Inr by (simp add: NextResponse_json_def)
  qed
qed

theorem no_results_array_gives_empty_sources_witness:
  "performSerpApiSearch rt_no_results (js ''speed of light?'') = Inr []
   \<and> sourceContext rt_no_results [] = Inr []
   \<and> snd (snd (POST rt_no_results Map.empty)) =
       full_trace rt_no_results (JObj [(js ''query'', JStr (js ''  speed of light?  ''))])
         (js ''speed of light?'') []
   \<and> status (fst (POST rt_no_results Map.empty)) = 200
   \<and> (\<exists>a. body (fst (POST rt_no_results Map.empty)) = SearchResponse a [])"
  using no_results_array_gives_empty_sources [where rt = rt_no_results and store = Map.empty
      and b = "JObj [(js ''query'', JStr (js ''  speed of light?  ''))]"
      and r = "\<lparr>query = js ''speed of light?'', location = None\<rparr>"
      and enc = "js ''speed of light?''"
      and resp = "\<lparr>ok = True,
        json = Inr (JObj [(js ''search_metadata'', JObj [(js ''status'', JStr (js ''Success''))])])\<rparr>"
      and data = "JObj [(js ''search_metadata'', JObj [(js ''status'', JStr (js ''Success''))])]"]
  by (simp add: rt_no_results_def validateEnvironment_def requiredEnvVars_def rt_example_def
      checkRateLimit_def clientIp_def validateSearchRequest_def
      trim_def sanitize_def isWhiteSpace_def isDenied_def Let_def)

text \<open>
  The claim as it was stated, for every response whose body has no results array, fails: a
  body that reports an error has no results array either, and for it the fetcher fails and
  the synthesizer is never called.
\<close>

theorem provider_error_without_results_counterexample:
  "fetch rt_provider_error (searchUrl rt_provider_error (js ''speed of light?''))
     = Inr \<lparr>ok = True,
        json = Inr (JObj [(js ''error'',
                 JStr (js ''Google hasn'' @ [0x27]
                       @ js ''t returned any results for this query.''))])\<rparr>
   \<and> getProp (JObj [(js ''error'',
                 JStr (js ''Google hasn'' @ [0x27]
                       @ js ''t returned any results for this query.''))])
         (js ''organic_results'') = JUndefined
   \<and> performSerpApiSearch rt_provider_error (js ''speed of light?'') = Inl search_failed
   \<and> snd (snd (POST rt_provider_error Map.empty)) =
       [CallValidateEnvironment, CallCheckRateLimit (js ''1.2.3.4''), CallRequestJson,
        CallValidateSearchRequest (JObj [(js ''query'', JStr (js ''  speed of light?  ''))]),
        CallPerformSerpApiSearch (js ''speed of light?'')]
   \<and> status (fst (POST rt_provider_error Map.empty)) = 500"
proof -
  have s: "performSerpApiSearch rt_provider_error (js ''speed of light?'') = Inl search_failed"
    by (simp add: rt_provider_error_def rt_example_def performSerpApiSearch_def)
  have p: "POST rt_provider_error Map.empty =
     (handleError search_failed, store_after rt_provider_error Map.empty,
      [CallValidateEnvironment, CallCheckRateLimit (clientIp rt_provider_error), CallRequestJson,
       CallValidateSearchRequest (JObj [(js ''query'', JStr (js ''  speed of light?  ''))]),
       CallPerformSerpApiSearch (js ''speed of light?'')])"
    using POST_of_try(1) [OF POST_try_search [where rt = rt_provider_error and store = Map.empty
      and u = "()" and b = "JObj [(js ''query'', JStr (js ''  speed of light?  ''))]"
      and r = "\<lparr>query = js ''speed of light?'', location = None\<rparr>" and e = search_failed]] s
    by (simp add: rt_provider_error_def validateEnvironment_def requiredEnvVars_def rt_example_def
      checkRateLimit_def clientIp_def validateSearchRequest_def
      trim_def sanitize_def isWhiteSpace_def isDenied_def Let_def)
  have c: "clientIp rt_provider_error = js ''1.2.3.4''"
    by (simp add: rt_provider_error_def rt_example_def clientIp_def)
  have f: "fetch rt_provider_error (searchUrl rt_provider_error (js ''speed of light?''))
     = Inr \<lparr>ok = True,
        json = Inr (JObj [(js ''error'',
                 JStr (js ''Google hasn'' @ [0x27]
                       @ js ''t returned any results for this query.''))])\<rparr>"
    by (simp add: rt_provider_error_def rt_example_def)
  have st: "status (handleError search_failed) = 500"
    using handleError_upstream(1) by (simp add: responds_def)
  show ?thesis using s f st c by (simp add: p)
qed

text \<open>
  Claim C4.  A result without a usable \<^verbatim>\<open>url\<close> is to be left out while the fetcher
  succeeds.  The code does so only when the result carries a \<^verbatim>\<open>favicon\<close>: then the
  result is dropped and the others keep their order (and the \<^verbatim>\<open>id\<close> of their position
  in the provider's list).  A result with neither \<^verbatim>\<open>link\<close> nor \<^verbatim>\<open>favicon\<close> makes
  the favicon fallback call \<^verbatim>\<open>new URL('')\<close>, which throws inside \<^verbatim>\<open>map\<close>, before
  the \<^verbatim>\<open>filter\<close> that would have dropped the result: the whole search fails.
\<close>

theorem missing_link_fails_search:
  "performSerpApiSearch rt_missing_link (js ''speed of light?'') = Inl search_failed
   \<and> performSerpApiSearch rt_missing_link_with_favicon (js ''speed of light?'')
       = Inr [\<lparr>id' = js ''serp-2'', title = JStr (js ''Light''),
               url = JStr (js ''https://a.example/l''),
               description = JStr (js ''299792458 m/s''),
               favicon = JStr (js ''https://www.google.com/s2/favicons?domain=a.example&sz=32'')\<rparr>]"
  by (simp add: rt_missing_link_def rt_missing_link_with_favicon_def rt_example_def
      performSerpApiSearch_def mapItem_def or_else_def newURL_hostname_def decimal.simps)

theorem missing_link_fails_search_witness:
  "snd (snd (POST rt_missing_link Map.empty)) =
       [CallValidateEnvironment, CallCheckRateLimit (js ''1.2.3.4''), CallRequestJson,
        CallValidateSearchRequest (JObj [(js ''query'', JStr (js ''  speed of light?  ''))]),
        CallPerformSerpApiSearch (js ''speed of light?'')]
   \<and> responds (fst (POST rt_missing_link Map.empty)) 500 (js ''Internal server error'')"
proof -
  have s: "performSerpApiSearch rt_missing_link (js ''speed of light?'') = Inl search_failed"
    using missing_link_fails_search by simp
  have p: "POST rt_missing_link Map.empty =
     (handleError search_failed, store_after rt_missing_link Map.empty,
      [CallValidateEnvironment, CallCheckRateLimit (clientIp rt_missing_link), CallRequestJson,
       CallValidateSearchRequest (JObj [(js ''query'', JStr (js ''  speed of light?  ''))]),
       CallPerformSerpApiSearch (js ''speed of light?'')])"
    using POST_of_try(1) [OF POST_try_search [where rt = rt_missing_link and store = Map.empty
      and u = "()" and b = "JObj [(js ''query'', JStr (js ''  speed of light?  ''))]"
      and r = "\<lparr>query = js ''speed of light?'', location = None\<rparr>" and e = search_failed]] s
    by (simp add: rt_missing_link_def validateEnvironment_def requiredEnvVars_def rt_example_def
      checkRateLimit_def clientIp_def validateSearchRequest_def
      trim_def sanitize_def isWhiteSpace_def isDenied_def Let_def)
  have c: "clientIp rt_missing_link = js ''1.2.3.4''"
    by (simp add: rt_missing_link_def rt_example_def clientIp_def)
  show ?thesis using handleError_upstream(1) c by (simp add: p)
qed

end
